theory Spec2Isabelle
  imports Main
begin

section \<open>Python values and the operations the script applies to them\<close>

text \<open>
  Every value the script holds in its session state or receives from the backend is a
  decoded JSON document: Python's \<^verbatim>\<open>None\<close> is JSON \<^verbatim>\<open>null\<close>, a \<^verbatim>\<open>dict\<close> is an object. An
  object is kept as an association list in insertion order, because the script reads
  the order of the keys (\<^verbatim>\<open>files[1]\<close>); a decoded Python \<^verbatim>\<open>dict\<close> never repeats a key.
  Numbers are integers here (no claim depends on a fraction), and strings are byte
  strings.
\<close>

datatype json =
    JNull
  | JBool bool
  | JNum int
  | JStr string
  | JArr "json list"
  | JObj "(string \<times> json) list"

text \<open>The exceptions the script's own expressions can raise.\<close>

datatype py_error = KeyError | TypeError | AttributeError

text \<open>Python truthiness, as tested by \<^verbatim>\<open>if x:\<close>.\<close>

fun truthy :: "json \<Rightarrow> bool" where
  "truthy JNull = False"
| "truthy (JBool b) = b"
| "truthy (JNum n) = (n \<noteq> 0)"
| "truthy (JStr s) = (s \<noteq> [])"
| "truthy (JArr xs) = (xs \<noteq> [])"
| "truthy (JObj kvs) = (kvs \<noteq> [])"

text \<open>\<^verbatim>\<open>x[k]\<close> with a string key: only a \<^verbatim>\<open>dict\<close> can answer, and only for a key it has.\<close>

fun py_index :: "json \<Rightarrow> string \<Rightarrow> py_error + json" where
  "py_index (JObj kvs) k = (case map_of kvs k of None \<Rightarrow> Inl KeyError | Some v \<Rightarrow> Inr v)"
| "py_index _ k = Inl TypeError"

text \<open>\<^verbatim>\<open>x.get(k, default)\<close>: a method of \<^verbatim>\<open>dict\<close> alone.\<close>

fun py_get_default :: "json \<Rightarrow> string \<Rightarrow> json \<Rightarrow> py_error + json" where
  "py_get_default (JObj kvs) k d = (case map_of kvs k of None \<Rightarrow> Inr d | Some v \<Rightarrow> Inr v)"
| "py_get_default _ k d = Inl AttributeError"

text \<open>\<^verbatim>\<open>x.get(k)\<close>: the default is \<^verbatim>\<open>None\<close>.\<close>

definition py_get :: "json \<Rightarrow> string \<Rightarrow> py_error + json" where
  "py_get x k = py_get_default x k JNull"

text \<open>Substring test on strings, \<^verbatim>\<open>needle in haystack\<close>.\<close>

fun starts_with :: "string \<Rightarrow> string \<Rightarrow> bool" where
  "starts_with [] hay = True"
| "starts_with (c # cs) [] = False"
| "starts_with (c # cs) (h # hs) = (c = h \<and> starts_with cs hs)"

fun str_contains :: "string \<Rightarrow> string \<Rightarrow> bool" where
  "str_contains needle [] = (needle = [])"
| "str_contains needle (h # hs) = (starts_with needle (h # hs) \<or> str_contains needle hs)"

text \<open>
  \<^verbatim>\<open>k in x\<close> for a string \<^verbatim>\<open>k\<close>: a key test on a \<^verbatim>\<open>dict\<close>, a substring test on a string, a
  membership test on a list, and a \<^verbatim>\<open>TypeError\<close> on anything that is not a container.
\<close>

fun py_contains :: "string \<Rightarrow> json \<Rightarrow> py_error + bool" where
  "py_contains k (JObj kvs) = Inr (map_of kvs k \<noteq> None)"
| "py_contains k (JStr s) = Inr (str_contains k s)"
| "py_contains k (JArr xs) = Inr (JStr k \<in> set xs)"
| "py_contains k _ = Inl TypeError"

text \<open>\<^verbatim>\<open>len(x)\<close>.\<close>

fun py_len :: "json \<Rightarrow> py_error + nat" where
  "py_len (JObj kvs) = Inr (length kvs)"
| "py_len (JStr s) = Inr (length s)"
| "py_len (JArr xs) = Inr (length xs)"
| "py_len _ = Inl TypeError"

text \<open>\<^verbatim>\<open>for t in x\<close>: whether \<^verbatim>\<open>x\<close> can be iterated.\<close>

fun py_iterate :: "json \<Rightarrow> py_error + unit" where
  "py_iterate (JObj kvs) = Inr ()"
| "py_iterate (JStr s) = Inr ()"
| "py_iterate (JArr xs) = Inr ()"
| "py_iterate _ = Inl TypeError"

text \<open>\<^verbatim>\<open>x.keys()\<close>, as a list.\<close>

fun py_keys :: "json \<Rightarrow> py_error + string list" where
  "py_keys (JObj kvs) = Inr (map fst kvs)"
| "py_keys _ = Inl AttributeError"

text \<open>
  \<^verbatim>\<open>str.lower()\<close> on the ASCII letters; every other byte is left as it is (the four
  keywords the script searches for are ASCII).
\<close>

definition lower_char :: "char \<Rightarrow> char" where
  "lower_char c =
     (case map_of (zip ''ABCDEFGHIJKLMNOPQRSTUVWXYZ'' ''abcdefghijklmnopqrstuvwxyz'') c of
        None \<Rightarrow> c
      | Some l \<Rightarrow> l)"

definition lower :: "string \<Rightarrow> string" where
  "lower s = map lower_char s"

text \<open>Sequencing of expressions that may raise: the first exception ends the evaluation.\<close>

definition and_then :: "py_error + 'a \<Rightarrow> ('a \<Rightarrow> py_error + 'b) \<Rightarrow> py_error + 'b" where
  "and_then r k = (case r of Inl e \<Rightarrow> Inl e | Inr v \<Rightarrow> k v)"

section \<open>The backend, seen from the script\<close>

text \<open>
  A chat message is the \<^verbatim>\<open>dict\<close> \<^verbatim>\<open>{"role": ..., "content": ...}\<close> the script builds; the
  content of an assistant message is whatever the backend put in its \<^verbatim>\<open>reply\<close> field.
\<close>

datatype role = User | Assistant

datatype chat_message = ChatMessage (role: role) (content: json)

text \<open>The four requests of the script, each with the JSON body it posts.\<close>

datatype request =
    HealthReq
  | ConnectReq string
  | GenerateReq json json json json
  | ChatReq string json json "chat_message list"

text \<open>
  What \<^verbatim>\<open>requests.get\<close> or \<^verbatim>\<open>requests.post\<close> does: it raises (connection refused,
  timeout), or it returns a response with a status code and a body;
  \<^verbatim>\<open>response.json()\<close> raises when the body is not JSON, which is the body \<open>None\<close>.
\<close>

datatype http_result =
    RequestException
  | Response int "json option"

type_synonym backend = "request \<Rightarrow> http_result"

text \<open>
  What a run shows and sends: the requests it issued, and the notices
  (\<^verbatim>\<open>st.error\<close>, \<^verbatim>\<open>st.warning\<close>, \<^verbatim>\<open>st.success\<close>, \<^verbatim>\<open>st.info\<close>) with the fixed part of their
  text; the response text or exception text that follows a colon is left out, and so
  are the pictographs.
\<close>

datatype notice = StError string | StWarning string | StSuccess string | StInfo string

datatype effect = Sent request | Notice notice

text \<open>\<^verbatim>\<open>test_backend_connection\<close> (and \<^verbatim>\<open>check_backend\<close> of \<^verbatim>\<open>run_chat.py\<close>, the same body).\<close>

definition test_backend_connection :: "backend \<Rightarrow> bool \<times> effect list" where
  "test_backend_connection be =
     (case be HealthReq of
        RequestException \<Rightarrow> (False, [Sent HealthReq])
      | Response status_code body \<Rightarrow> (status_code = 200, [Sent HealthReq]))"

definition check_backend :: "backend \<Rightarrow> bool \<times> effect list" where
  "check_backend be =
     (case be HealthReq of
        RequestException \<Rightarrow> (False, [Sent HealthReq])
      | Response status_code body \<Rightarrow> (status_code = 200, [Sent HealthReq]))"

text \<open>\<^verbatim>\<open>connect_to_repository\<close>: \<^verbatim>\<open>None\<close> (here \<open>JNull\<close>) on every failure.\<close>

definition connect_to_repository :: "backend \<Rightarrow> string \<Rightarrow> json \<times> effect list" where
  "connect_to_repository be repo_url =
     (let req = ConnectReq repo_url in
      case be req of
        RequestException \<Rightarrow>
          (JNull, [Sent req, Notice (StError ''Error connecting to repository: '')])
      | Response status_code body \<Rightarrow>
          if status_code = 200 then
            (case body of
               None \<Rightarrow> (JNull, [Sent req, Notice (StError ''Error connecting to repository: '')])
             | Some j \<Rightarrow> (j, [Sent req]))
          else (JNull, [Sent req, Notice (StError ''Failed to connect to repository: '')]))"

text \<open>
  \<^verbatim>\<open>generate_documentation\<close>: the payload is built inside the \<^verbatim>\<open>try\<close>, so a repository
  without one of the four keys is an error notice and no request.
\<close>

definition generate_payload :: "json \<Rightarrow> py_error + request" where
  "generate_payload repository =
     and_then (py_index repository ''owner'') (\<lambda>owner.
     and_then (py_index repository ''name'') (\<lambda>name.
     and_then (py_index repository ''defaultBranch'') (\<lambda>branch.
     and_then (py_index repository ''fileStructure'') (\<lambda>fileStructure.
       Inr (GenerateReq owner name branch fileStructure)))))"

definition generate_documentation :: "backend \<Rightarrow> json \<Rightarrow> json \<times> effect list" where
  "generate_documentation be repository =
     (case generate_payload repository of
        Inl e \<Rightarrow> (JNull, [Notice (StError ''Error generating documentation: '')])
      | Inr req \<Rightarrow>
          (case be req of
             RequestException \<Rightarrow>
               (JNull, [Sent req, Notice (StError ''Error generating documentation: '')])
           | Response status_code body \<Rightarrow>
               if status_code = 200 then
                 (case body of
                    None \<Rightarrow>
                      (JNull, [Sent req, Notice (StError ''Error generating documentation: '')])
                  | Some j \<Rightarrow> (j, [Sent req]))
               else (JNull, [Sent req, Notice (StError ''Failed to generate documentation: '')])))"

text \<open>
  \<^verbatim>\<open>chat_with_repository\<close>: \<^verbatim>\<open>documentation["json"]\<close> is read inside the \<^verbatim>\<open>try\<close>, and so
  is \<^verbatim>\<open>response.json()["reply"]\<close>; the result is the reply field as it came, or \<^verbatim>\<open>None\<close>.
\<close>

definition chat_with_repository ::
  "backend \<Rightarrow> string \<Rightarrow> json \<Rightarrow> json \<Rightarrow> chat_message list \<Rightarrow> json \<times> effect list" where
  "chat_with_repository be message repository documentation conversation_history =
     (case py_index documentation ''json'' of
        Inl e \<Rightarrow> (JNull, [Notice (StError ''Error in chat: '')])
      | Inr doc_json \<Rightarrow>
          (let req = ChatReq message repository doc_json conversation_history in
           case be req of
             RequestException \<Rightarrow> (JNull, [Sent req, Notice (StError ''Error in chat: '')])
           | Response status_code body \<Rightarrow>
               if status_code = 200 then
                 (case body of
                    None \<Rightarrow> (JNull, [Sent req, Notice (StError ''Error in chat: '')])
                  | Some j \<Rightarrow>
                      (case py_index j ''reply'' of
                         Inl e \<Rightarrow> (JNull, [Sent req, Notice (StError ''Error in chat: '')])
                       | Inr reply \<Rightarrow> (reply, [Sent req])))
               else (JNull, [Sent req, Notice (StError ''Chat failed: '')])))"

section \<open>Rendering helpers and suggested questions\<close>

text \<open>
  \<^verbatim>\<open>display_repository_info\<close> only writes to the page, but it indexes the repository and
  so raises on one that lacks a key.
\<close>

definition display_repository_info :: "json \<Rightarrow> py_error + unit" where
  "display_repository_info repository =
     and_then (py_index repository ''owner'') (\<lambda>_.
     and_then (py_index repository ''name'') (\<lambda>_.
     and_then (py_index repository ''defaultBranch'') (\<lambda>_.
     and_then (py_index repository ''url'') (\<lambda>_.
     and_then (py_get repository ''description'') (\<lambda>_. Inr ())))))"

text \<open>One column of the summary: \<^verbatim>\<open>if summary.get(k): for x in summary[k]: st.write(...)\<close>.\<close>

definition display_summary_list :: "json \<Rightarrow> string \<Rightarrow> py_error + unit" where
  "display_summary_list summary k =
     and_then (py_get summary k) (\<lambda>v.
       if truthy v then and_then (py_index summary k) py_iterate else Inr ())"

definition display_documentation_summary :: "json \<Rightarrow> py_error + unit" where
  "display_documentation_summary documentation =
     (if \<not> truthy documentation then Inr ()
      else and_then (py_contains ''json'' documentation) (\<lambda>has_json.
        if \<not> has_json then Inr ()
        else and_then (py_index documentation ''json'') (\<lambda>doc_data.
          and_then (py_get_default doc_data ''summary'' (JObj [])) (\<lambda>summary.
            if truthy summary then
              and_then (py_get summary ''summary'') (\<lambda>_.
              and_then (display_summary_list summary ''technologies'') (\<lambda>_.
                display_summary_list summary ''mainComponents''))
            else Inr ()))))"

text \<open>\<^verbatim>\<open>suggest_questions\<close>.\<close>

definition no_documentation_questions :: "string list" where
  "no_documentation_questions =
     [''What does this repository do?'',
      ''How is the project structured?'',
      ''What are the main files?'']"

definition generic_questions :: "string list" where
  "generic_questions =
     [''What does this repository do?'',
      ''How do I get started with this project?'',
      ''What are the main components?'',
      ''How is the code organized?'']"

definition main_keywords :: "string list" where
  "main_keywords = [''main'', ''index'', ''app'', ''server'']"

definition is_main_file :: "string \<Rightarrow> bool" where
  "is_main_file f = list_ex (\<lambda>keyword. str_contains keyword (lower f)) main_keywords"

definition file_suggestions :: "string list \<Rightarrow> string list" where
  "file_suggestions files =
     (if files \<noteq> [] then
        (let main_files = filter is_main_file files in
         (if main_files \<noteq> [] then [''What does '' @ hd main_files @ '' do?''] else [])
         @ (if length files > 1 then [''Explain the '' @ files ! 1 @ '' file''] else []))
      else [])"

definition suggest_questions :: "json \<Rightarrow> json \<Rightarrow> py_error + string list" where
  "suggest_questions repository documentation =
     (if \<not> truthy documentation then Inr no_documentation_questions
      else and_then (py_contains ''json'' documentation) (\<lambda>has_json.
        if \<not> has_json then Inr no_documentation_questions
        else and_then (py_index documentation ''json'') (\<lambda>doc_data.
          and_then (py_get_default doc_data ''files'' (JObj [])) (\<lambda>files_dict.
          and_then (py_keys files_dict) (\<lambda>files.
            Inr (take 6 (generic_questions @ file_suggestions files)))))))"

section \<open>Session state\<close>

text \<open>
  \<^verbatim>\<open>st.session_state\<close> with its four keys. The block that initialises them (run on
  every script run) sets a key only when it is missing, so it gives a new session the
  state \<open>initial_session\<close> and leaves every later one as it is.
\<close>

record session_state =
  messages :: "chat_message list"
  repository :: json
  documentation :: json
  conversation_history :: "chat_message list"

definition initial_session :: session_state where
  "initial_session =
     \<lparr>messages = [], repository = JNull, documentation = JNull, conversation_history = []\<rparr>"

definition init_session_state :: "session_state option \<Rightarrow> session_state" where
  "init_session_state stored = (case stored of None \<Rightarrow> initial_session | Some s \<Rightarrow> s)"

section \<open>One run of the script\<close>

text \<open>
  The framework runs the whole script once for every action of the user, and at most
  one widget reports that action in a run: a button returns \<^verbatim>\<open>True\<close> in the run its
  click caused, the chat input returns the submitted text. \<open>ConnectClick\<close> carries what
  the URL field holds when the button is clicked.
\<close>

datatype event =
    NoEvent
  | ConnectClick string
  | GenerateClick
  | SuggestionClick nat
  | ChatInput string
  | ClearClick

text \<open>
  A run ends at the last line, at \<^verbatim>\<open>st.stop()\<close>, at \<^verbatim>\<open>st.rerun()\<close>, or with an exception
  that nothing catches; what it wrote to the session state before stays written.
\<close>

datatype ending = Completed | Stopped | Rerun | Uncaught py_error

record run =
  state :: session_state
  effects :: "effect list"
  ending :: ending

definition completed :: "session_state \<Rightarrow> effect list \<Rightarrow> run" where
  "completed s fx = \<lparr>state = s, effects = fx, ending = Completed\<rparr>"

definition uncaught :: "session_state \<Rightarrow> effect list \<Rightarrow> py_error \<Rightarrow> run" where
  "uncaught s fx e = \<lparr>state = s, effects = fx, ending = Uncaught e\<rparr>"

text \<open>The next part of the script runs only if the part before it reached its end.\<close>

definition then_run :: "run \<Rightarrow> (session_state \<Rightarrow> run) \<Rightarrow> run" where
  "then_run r k =
     (if ending r = Completed
      then (let r' = k (state r) in r'\<lparr>effects := effects r @ effects r'\<rparr>)
      else r)"

subsection \<open>Sidebar\<close>

text \<open>Backend connection status: a failed health check stops the run.\<close>

definition health_gate :: "backend \<Rightarrow> session_state \<Rightarrow> run" where
  "health_gate be s =
     (case test_backend_connection be of
        (ok, fx) \<Rightarrow>
          if ok then completed s (fx @ [Notice (StSuccess ''Backend connected'')])
          else \<lparr>state = s,
                effects = fx @ [Notice (StError ''Backend not connected''),
                  Notice (StWarning ''Make sure the backend server is running on port 4000'')],
                ending = Stopped\<rparr>)"

text \<open>The body of \<^verbatim>\<open>if st.button("Connect to Repository")\<close>.\<close>

definition connect_button :: "backend \<Rightarrow> string \<Rightarrow> session_state \<Rightarrow> run" where
  "connect_button be repo_url s =
     (if repo_url \<noteq> [] then
        (case connect_to_repository be repo_url of
           (result, fx) \<Rightarrow>
             if truthy result then
               (case py_get result ''success'' of
                  Inl e \<Rightarrow> uncaught s fx e
                | Inr success \<Rightarrow>
                    if truthy success then
                      (case py_index result ''repository'' of
                         Inl e \<Rightarrow> uncaught s fx e
                       | Inr repo \<Rightarrow>
                           \<lparr>state = s\<lparr>repository := repo, documentation := JNull\<rparr>,
                            effects = fx @ [Notice (StSuccess ''Repository connected!'')],
                            ending = Rerun\<rparr>)
                    else completed s fx)
             else completed s fx)
      else completed s [Notice (StWarning ''Please enter a repository URL'')])"

definition connect_section :: "backend \<Rightarrow> event \<Rightarrow> session_state \<Rightarrow> run" where
  "connect_section be ev s =
     (case ev of ConnectClick repo_url \<Rightarrow> connect_button be repo_url s | _ \<Rightarrow> completed s [])"

text \<open>The body of \<^verbatim>\<open>if st.button("Generate Documentation")\<close>.\<close>

definition generate_button :: "backend \<Rightarrow> session_state \<Rightarrow> run" where
  "generate_button be s =
     (case generate_documentation be (repository s) of
        (doc_result, fx) \<Rightarrow>
          if truthy doc_result then
            (case py_get doc_result ''success'' of
               Inl e \<Rightarrow> uncaught s fx e
             | Inr success \<Rightarrow>
                 if truthy success then
                   (case py_index doc_result ''documentation'' of
                      Inl e \<Rightarrow> uncaught s fx e
                    | Inr doc \<Rightarrow>
                        \<lparr>state = s\<lparr>documentation := doc\<rparr>,
                         effects = fx @ [Notice (StSuccess ''Documentation generated!'')],
                         ending = Rerun\<rparr>)
                 else completed s fx)
          else completed s fx)"

text \<open>\<^verbatim>\<open>len(st.session_state.documentation["json"].get("files", {}))\<close>.\<close>

definition documentation_file_count :: "json \<Rightarrow> py_error + nat" where
  "documentation_file_count doc =
     and_then (py_index doc ''json'') (\<lambda>doc_json.
     and_then (py_get_default doc_json ''files'' (JObj [])) py_len)"

definition documentation_section :: "backend \<Rightarrow> event \<Rightarrow> session_state \<Rightarrow> run" where
  "documentation_section be ev s =
     (if truthy (repository s) then
        (if truthy (documentation s) then
           (case py_contains ''json'' (documentation s) of
              Inl e \<Rightarrow> uncaught s [Notice (StSuccess ''Documentation ready'')] e
            | Inr has_json \<Rightarrow>
                if has_json then
                  (case documentation_file_count (documentation s) of
                     Inl e \<Rightarrow> uncaught s [Notice (StSuccess ''Documentation ready'')] e
                   | Inr file_count \<Rightarrow>
                       completed s [Notice (StSuccess ''Documentation ready''),
                         Notice (StInfo '' files documented'')])
                else completed s [Notice (StSuccess ''Documentation ready'')])
         else if ev = GenerateClick then generate_button be s else completed s [])
      else completed s [])"

text \<open>The block \<^verbatim>\<open>with st.sidebar:\<close>.\<close>

definition sidebar :: "backend \<Rightarrow> event \<Rightarrow> session_state \<Rightarrow> run" where
  "sidebar be ev s =
     then_run (then_run (health_gate be s) (connect_section be ev)) (documentation_section be ev)"

subsection \<open>Main content area\<close>

text \<open>Both chat handlers append the same message to both logs.\<close>

definition append_message :: "chat_message \<Rightarrow> session_state \<Rightarrow> session_state" where
  "append_message m s =
     s\<lparr>messages := messages s @ [m], conversation_history := conversation_history s @ [m]\<rparr>"

text \<open>
  The body of a suggested-question button: the user message is appended, the chat
  call sees the history with it, the reply is appended when it is truthy, and the
  script reruns; there is no notice of its own on a falsy reply.
\<close>

definition suggestion_handler :: "backend \<Rightarrow> string \<Rightarrow> session_state \<Rightarrow> run" where
  "suggestion_handler be suggestion s =
     (let s1 = append_message (ChatMessage User (JStr suggestion)) s in
      case chat_with_repository be suggestion (repository s1) (documentation s1)
             (conversation_history s1) of
        (response, fx) \<Rightarrow>
          \<lparr>state = (if truthy response
                     then append_message (ChatMessage Assistant response) s1 else s1),
           effects = fx,
           ending = Rerun\<rparr>)"

text \<open>The loop over \<^verbatim>\<open>enumerate(suggestions)\<close>: the first button that was clicked runs.\<close>

fun suggestion_buttons ::
  "backend \<Rightarrow> event \<Rightarrow> (nat \<times> string) list \<Rightarrow> session_state \<Rightarrow> run" where
  "suggestion_buttons be ev [] s = completed s []"
| "suggestion_buttons be ev ((i, suggestion) # rest) s =
     (if ev = SuggestionClick i then suggestion_handler be suggestion s
      else suggestion_buttons be ev rest s)"

definition suggestions_section :: "backend \<Rightarrow> event \<Rightarrow> session_state \<Rightarrow> run" where
  "suggestions_section be ev s =
     (case suggest_questions (repository s) (documentation s) of
        Inl e \<Rightarrow> uncaught s [] e
      | Inr suggestions \<Rightarrow> suggestion_buttons be ev (enumerate 0 suggestions) s)"

text \<open>
  The body of \<^verbatim>\<open>if prompt := st.chat_input(...)\<close>: as above, with an error notice when
  the reply is falsy, and the run goes on.
\<close>

definition chat_error_notice :: effect where
  "chat_error_notice =
     Notice (StError (''Sorry, I couldn'' @ [CHR 0x27] @
       ''t process your question. Please try again.''))"

definition chat_input_handler :: "backend \<Rightarrow> string \<Rightarrow> session_state \<Rightarrow> run" where
  "chat_input_handler be prompt s =
     (let s1 = append_message (ChatMessage User (JStr prompt)) s in
      case chat_with_repository be prompt (repository s1) (documentation s1)
             (conversation_history s1) of
        (response, fx) \<Rightarrow>
          if truthy response
          then completed (append_message (ChatMessage Assistant response) s1) fx
          else completed s1 (fx @ [chat_error_notice]))"

definition chat_input_section :: "backend \<Rightarrow> event \<Rightarrow> session_state \<Rightarrow> run" where
  "chat_input_section be ev s =
     (case ev of
        ChatInput prompt \<Rightarrow> if prompt \<noteq> [] then chat_input_handler be prompt s else completed s []
      | _ \<Rightarrow> completed s [])"

text \<open>The body of the Clear Chat button.\<close>

definition clear_chat :: "session_state \<Rightarrow> session_state" where
  "clear_chat s = s\<lparr>messages := [], conversation_history := []\<rparr>"

definition clear_chat_section :: "event \<Rightarrow> session_state \<Rightarrow> run" where
  "clear_chat_section ev s =
     (if messages s \<noteq> [] then
        (if ev = ClearClick
         then \<lparr>state = clear_chat s, effects = [], ending = Rerun\<rparr>
         else completed s [])
      else completed s [])"

definition main_area :: "backend \<Rightarrow> event \<Rightarrow> session_state \<Rightarrow> run" where
  "main_area be ev s =
     (if truthy (repository s) then
        (case display_repository_info (repository s) of
           Inl e \<Rightarrow> uncaught s [] e
         | Inr _ \<Rightarrow>
             if truthy (documentation s) then
               (case display_documentation_summary (documentation s) of
                  Inl e \<Rightarrow> uncaught s [] e
                | Inr _ \<Rightarrow>
                    then_run (then_run (suggestions_section be ev s) (chat_input_section be ev))
                      (clear_chat_section ev))
             else completed s
                    [Notice (StInfo
                       ''Generate documentation first to start chatting about the repository'')])
      else completed s [])"

subsection \<open>The whole script\<close>

definition script :: "backend \<Rightarrow> event \<Rightarrow> session_state \<Rightarrow> run" where
  "script be ev s = then_run (sidebar be ev s) (main_area be ev)"

definition run_script :: "backend \<Rightarrow> event \<Rightarrow> session_state option \<Rightarrow> run" where
  "run_script be ev stored = script be ev (init_session_state stored)"

section \<open>Observations on runs\<close>

text \<open>A run issued a chat call when it sent a request to the chat endpoint.\<close>

fun is_chat_call :: "effect \<Rightarrow> bool" where
  "is_chat_call (Sent (ChatReq message repo doc history)) = True"
| "is_chat_call _ = False"

definition chat_issued :: "run \<Rightarrow> bool" where
  "chat_issued r = list_ex is_chat_call (effects r)"

text \<open>
  The chat is reachable from a session when some run of the script, for some action of
  the user and some answers of the backend, issues a chat call.
\<close>

definition chat_reachable :: "session_state \<Rightarrow> bool" where
  "chat_reachable s = (\<exists>be ev. chat_issued (script be ev s))"

text \<open>An expression returns when it raises nothing.\<close>

definition returns :: "py_error + 'a \<Rightarrow> bool" where
  "returns r = (case r of Inl e \<Rightarrow> False | Inr v \<Rightarrow> True)"

text \<open>
  What the script needs of a session on its way to a chat call: both fields true, the
  \<^verbatim>\<open>json\<close> payload that the chat request reads, and no exception from the code that
  runs before the chat section (the file count of the sidebar, the repository
  information, the documentation summary, the suggested questions).
\<close>

definition chat_ready :: "session_state \<Rightarrow> bool" where
  "chat_ready s =
     (truthy (repository s) \<and> truthy (documentation s)
      \<and> returns (py_index (documentation s) ''json'')
      \<and> returns (documentation_file_count (documentation s))
      \<and> returns (display_repository_info (repository s))
      \<and> returns (display_documentation_summary (documentation s))
      \<and> returns (suggest_questions (repository s) (documentation s)))"

text \<open>A call failed when the request raised or the status is not 200.\<close>

definition call_failed :: "http_result \<Rightarrow> bool" where
  "call_failed res =
     (case res of RequestException \<Rightarrow> True | Response status_code body \<Rightarrow> status_code \<noteq> 200)"

definition calls_failed :: "backend \<Rightarrow> effect list \<Rightarrow> bool" where
  "calls_failed be fx =
     (\<forall>req. Sent req \<in> set fx \<and> req \<noteq> HealthReq \<longrightarrow> call_failed (be req))"

text \<open>
  The session states a user can bring about: the state of a new session, and the state
  any run leaves, whatever the action and whatever the backend answers.
\<close>

inductive reachable :: "session_state \<Rightarrow> bool" where
  start: "reachable (init_session_state None)"
| step: "reachable s \<Longrightarrow> reachable (state (run_script be ev (Some s)))"

section \<open>Shapes of the backend's data, and the spec's wording\<close>

text \<open>
  The repository and the documentation of the API contract are JSON objects: a
  repository has the keys the page shows, and a documentation carries its payload under
  \<^verbatim>\<open>json\<close>, an object whose \<^verbatim>\<open>summary\<close> (when present) is an object with lists under
  \<^verbatim>\<open>technologies\<close> and \<^verbatim>\<open>mainComponents\<close> and whose \<^verbatim>\<open>files\<close> (when present) is an object
  keyed by path. On such values the rendering code raises nothing.
\<close>

definition has_keys :: "string list \<Rightarrow> json \<Rightarrow> bool" where
  "has_keys ks v = (case v of JObj kvs \<Rightarrow> list_all (\<lambda>k. map_of kvs k \<noteq> None) ks | _ \<Rightarrow> False)"

definition wf_repository :: "json \<Rightarrow> bool" where
  "wf_repository repo = has_keys [''owner'', ''name'', ''defaultBranch'', ''url''] repo"

definition optional_list :: "json option \<Rightarrow> bool" where
  "optional_list v = (case v of None \<Rightarrow> True | Some (JArr xs) \<Rightarrow> True | Some _ \<Rightarrow> False)"

definition wf_summary :: "json option \<Rightarrow> bool" where
  "wf_summary v =
     (case v of
        None \<Rightarrow> True
      | Some (JObj sk) \<Rightarrow>
          optional_list (map_of sk ''technologies'') \<and> optional_list (map_of sk ''mainComponents'')
      | Some _ \<Rightarrow> False)"

definition wf_files :: "json option \<Rightarrow> bool" where
  "wf_files v = (case v of None \<Rightarrow> True | Some (JObj fk) \<Rightarrow> True | Some _ \<Rightarrow> False)"

definition wf_documentation :: "json \<Rightarrow> bool" where
  "wf_documentation doc =
     (case doc of
        JObj kvs \<Rightarrow>
          (case map_of kvs ''json'' of
             Some (JObj dk) \<Rightarrow> wf_summary (map_of dk ''summary'') \<and> wf_files (map_of dk ''files'')
           | _ \<Rightarrow> False)
      | _ \<Rightarrow> False)"

text \<open>A session whose repository and documentation are each unset or of that shape.\<close>

definition wf_session :: "session_state \<Rightarrow> bool" where
  "wf_session s =
     ((repository s = JNull \<or> wf_repository (repository s))
      \<and> (documentation s = JNull \<or> wf_documentation (documentation s)))"

text \<open>
  The file-specific prompts as the specification words them: a question about the first
  path that contains one of the four substrings, compared without regard to case, and
  a question about the second path of the listing.
\<close>

definition spec_matches_keyword :: "string \<Rightarrow> bool" where
  "spec_matches_keyword path =
     (str_contains ''main'' (lower path) \<or> str_contains ''index'' (lower path)
      \<or> str_contains ''app'' (lower path) \<or> str_contains ''server'' (lower path))"

definition spec_file_prompts :: "string list \<Rightarrow> string list" where
  "spec_file_prompts files =
     (case find spec_matches_keyword files of
        None \<Rightarrow> []
      | Some f \<Rightarrow> [''What does '' @ f @ '' do?''])
     @ (case files of
          f1 # f2 # rest \<Rightarrow> [''Explain the '' @ f2 @ '' file'']
        | _ \<Rightarrow> [])"

section \<open>Example backends\<close>

text \<open>The repository and documentation of the specification's end-to-end scenario.\<close>

definition demo_repository :: json where
  "demo_repository =
     JObj [(''owner'', JStr ''octo''), (''name'', JStr ''demo''),
       (''defaultBranch'', JStr ''main''), (''url'', JStr ''https://github.com/octo/demo''),
       (''fileStructure'', JArr [])]"

definition demo_files :: "(string \<times> json) list" where
  "demo_files = [(''main.py'', JObj []), (''utils.py'', JObj [])]"

definition demo_doc_json :: "(string \<times> json) list" where
  "demo_doc_json =
     [(''summary'',
        JObj [(''summary'', JStr ''A demo''), (''technologies'', JArr [JStr ''py'']),
          (''mainComponents'', JArr [JStr ''core''])]),
      (''files'', JObj demo_files)]"

definition demo_documentation :: json where
  "demo_documentation = JObj [(''json'', JObj demo_doc_json)]"

definition other_repository :: json where
  "other_repository =
     JObj [(''owner'', JStr ''octo''), (''name'', JStr ''other''),
       (''defaultBranch'', JStr ''trunk''), (''url'', JStr ''https://github.com/octo/other''),
       (''fileStructure'', JArr [])]"

text \<open>
  A backend that answers every request with success; it knows two repositories.
\<close>

definition demo_backend :: backend where
  "demo_backend req =
     (case req of
        HealthReq \<Rightarrow> Response 200 None
      | ConnectReq url \<Rightarrow>
          Response 200
            (Some (JObj [(''success'', JBool True),
               (''repository'',
                  if url = ''https://github.com/octo/other'' then other_repository
                  else demo_repository)]))
      | GenerateReq owner name branch files \<Rightarrow>
          Response 200
            (Some (JObj [(''success'', JBool True), (''documentation'', demo_documentation)]))
      | ChatReq message repo doc history \<Rightarrow>
          Response 200 (Some (JObj [(''reply'', JStr ''It is a demo.'')])))"

text \<open>
  A backend whose health check passes and whose operations fail: connecting is answered
  with status 500, the two long calls time out.
\<close>

definition failing_backend :: backend where
  "failing_backend req =
     (case req of
        HealthReq \<Rightarrow> Response 200 None
      | ConnectReq url \<Rightarrow> Response 500 None
      | GenerateReq owner name branch files \<Rightarrow> RequestException
      | ChatReq message repo doc history \<Rightarrow> RequestException)"

text \<open>A backend whose chat answers with status 200 and an empty reply.\<close>

definition empty_reply_backend :: backend where
  "empty_reply_backend req =
     (case req of
        ChatReq message repo doc history \<Rightarrow> Response 200 (Some (JObj [(''reply'', JStr [])]))
      | _ \<Rightarrow> demo_backend req)"

text \<open>
  Sessions of the scenario: after connecting, after generating the documentation, and
  after one answered question.
\<close>

definition connected_session :: session_state where
  "connected_session =
     \<lparr>messages = [], repository = demo_repository, documentation = JNull,
      conversation_history = []\<rparr>"

definition demo_session :: session_state where
  "demo_session =
     \<lparr>messages = [], repository = demo_repository, documentation = demo_documentation,
      conversation_history = []\<rparr>"

definition chatted_session :: session_state where
  "chatted_session =
     \<lparr>messages = [ChatMessage User (JStr ''hello''),
        ChatMessage Assistant (JStr ''It is a demo.'')],
      repository = demo_repository, documentation = demo_documentation,
      conversation_history = [ChatMessage User (JStr ''hello''),
        ChatMessage Assistant (JStr ''It is a demo.'')]\<rparr>"

text \<open>
  A backend whose documentation has no \<^verbatim>\<open>json\<close> payload, and one whose documentation is
  the empty object; the sessions they lead to after connecting and generating.
\<close>

definition markdown_documentation :: json where
  "markdown_documentation = JObj [(''markdown'', JStr ''# demo'')]"

definition markdown_backend :: backend where
  "markdown_backend req =
     (case req of
        GenerateReq owner name branch files \<Rightarrow>
          Response 200
            (Some (JObj [(''success'', JBool True), (''documentation'', markdown_documentation)]))
      | _ \<Rightarrow> demo_backend req)"

definition markdown_session :: session_state where
  "markdown_session =
     \<lparr>messages = [], repository = demo_repository, documentation = markdown_documentation,
      conversation_history = []\<rparr>"

definition unfilled_backend :: backend where
  "unfilled_backend req =
     (case req of
        GenerateReq owner name branch files \<Rightarrow>
          Response 200 (Some (JObj [(''success'', JBool True), (''documentation'', JObj [])]))
      | _ \<Rightarrow> demo_backend req)"

definition unfilled_session :: session_state where
  "unfilled_session =
     \<lparr>messages = [], repository = demo_repository, documentation = JObj [],
      conversation_history = []\<rparr>"

text \<open>A backend that cannot be reached, and one that answers every request with 500.\<close>

definition down_backend :: backend where
  "down_backend req = RequestException"

definition error_backend :: backend where
  "error_backend req = Response 500 None"

section \<open>Suggested questions\<close>

lemma is_main_file_spec: "is_main_file f = spec_matches_keyword f"
  by (simp add: is_main_file_def spec_matches_keyword_def main_keywords_def)

lemma first_match_find:
  "(if filter P xs \<noteq> [] then [g (hd (filter P xs))] else []) =
   (case find P xs of None \<Rightarrow> [] | Some f \<Rightarrow> [g f])"
  by (induction xs) auto

lemma second_file_cases:
  "(if length files > 1 then [g (files ! 1)] else []) =
   (case files of f1 # f2 # rest \<Rightarrow> [g f2] | _ \<Rightarrow> [])"
  by (cases files; cases "tl files") auto

lemma file_suggestions_spec: "file_suggestions files = spec_file_prompts files"
proof -
  have P: "is_main_file = spec_matches_keyword" by (rule ext) (rule is_main_file_spec)
  have "file_suggestions files =
      (if filter spec_matches_keyword files \<noteq> []
         then [''What does '' @ hd (filter spec_matches_keyword files) @ '' do?''] else [])
      @ (if length files > 1 then [''Explain the '' @ files ! 1 @ '' file''] else [])"
    by (cases files) (simp_all add: file_suggestions_def P Let_def)
  also have "\<dots> = spec_file_prompts files"
    unfolding spec_file_prompts_def
    using first_match_find [of spec_matches_keyword files "\<lambda>f. ''What does '' @ f @ '' do?''"]
      second_file_cases [of files "\<lambda>f. ''Explain the '' @ f @ '' file''"]
    by simp
  finally show ?thesis .
qed

lemma length_file_suggestions: "length (file_suggestions files) \<le> 2"
  by (simp add: file_suggestions_def Let_def)

lemma suggest_questions_length:
  "suggest_questions repo doc = Inr qs \<Longrightarrow> length qs \<le> 6"
  by (auto simp: suggest_questions_def and_then_def no_documentation_questions_def
      split: if_splits sum.splits)

lemma wf_documentationE:
  assumes "wf_documentation doc"
  obtains kvs dk where "doc = JObj kvs" "map_of kvs ''json'' = Some (JObj dk)"
    "wf_summary (map_of dk ''summary'')" "wf_files (map_of dk ''files'')"
  using assms unfolding wf_documentation_def
  by (auto split: json.splits option.splits)

lemma wf_filesE:
  assumes "wf_files (map_of dk ''files'')"
  obtains fk where "py_get_default (JObj dk) ''files'' (JObj []) = Inr (JObj fk)"
  using assms unfolding wf_files_def
  by (auto split: json.splits option.splits)

lemma wf_documentation_truthy: "wf_documentation doc \<Longrightarrow> truthy doc"
  by (erule wf_documentationE) auto

lemma suggest_questions_files:
  assumes "map_of kvs ''json'' = Some (JObj dk)"
    and "py_get_default (JObj dk) ''files'' (JObj []) = Inr (JObj fk)"
  shows "suggest_questions repo (JObj kvs) =
     Inr (generic_questions @ file_suggestions (map fst fk))"
proof -
  from assms(1) have ne: "kvs \<noteq> []" by auto
  have len: "length (generic_questions @ file_suggestions (map fst fk)) \<le> 6"
    using length_file_suggestions [of "map fst fk"] by (simp add: generic_questions_def)
  show ?thesis
    using assms ne len by (simp add: suggest_questions_def and_then_def)
qed

lemma suggest_questions_wf:
  assumes "wf_documentation doc"
  shows "\<exists>qs. suggest_questions repo doc = Inr qs"
proof -
  from assms obtain kvs dk where d: "doc = JObj kvs" "map_of kvs ''json'' = Some (JObj dk)"
    and f: "wf_files (map_of dk ''files'')" by (rule wf_documentationE)
  from f obtain fk where "py_get_default (JObj dk) ''files'' (JObj []) = Inr (JObj fk)"
    by (rule wf_filesE)
  with d show ?thesis by (simp add: suggest_questions_files)
qed

lemma wf_demo_documentation: "wf_documentation demo_documentation"
  by (simp add: wf_documentation_def demo_documentation_def demo_doc_json_def wf_summary_def
      wf_files_def optional_list_def)

text \<open>
  C5. \<^verbatim>\<open>suggest_questions\<close> never returns more than six questions; for a documentation
  that is \<^verbatim>\<open>None\<close>, or an object with no \<^verbatim>\<open>json\<close> payload, it returns exactly the three
  fixed questions of the no-documentation branch, none of them about a file; and on
  every documentation of the contract's shape it does return a list.
\<close>

theorem suggest_questions_at_most_six:
  "(\<forall>qs. suggest_questions repo doc = Inr qs \<longrightarrow> length qs \<le> 6)
   \<and> (doc = JNull \<or> (\<exists>kvs. doc = JObj kvs \<and> map_of kvs ''json'' = None)
        \<longrightarrow> suggest_questions repo doc =
              Inr [''What does this repository do?'', ''How is the project structured?'',
                   ''What are the main files?''])
   \<and> (wf_documentation doc \<longrightarrow> (\<exists>qs. suggest_questions repo doc = Inr qs))"
proof (intro conjI allI impI)
  fix qs assume "suggest_questions repo doc = Inr qs"
  then show "length qs \<le> 6" by (rule suggest_questions_length)
next
  assume "doc = JNull \<or> (\<exists>kvs. doc = JObj kvs \<and> map_of kvs ''json'' = None)"
  then show "suggest_questions repo doc =
      Inr [''What does this repository do?'', ''How is the project structured?'',
           ''What are the main files?'']"
    by (auto simp: suggest_questions_def and_then_def no_documentation_questions_def)
next
  assume "wf_documentation doc"
  then show "\<exists>qs. suggest_questions repo doc = Inr qs" by (rule suggest_questions_wf)
qed

theorem suggest_questions_at_most_six_witness:
  "suggest_questions demo_repository JNull = Inr no_documentation_questions
   \<and> suggest_questions demo_repository (JObj [(''markdown'', JStr ''# demo'')]) =
       Inr no_documentation_questions
   \<and> wf_documentation demo_documentation
   \<and> (\<exists>qs. suggest_questions demo_repository demo_documentation = Inr qs \<and> length qs \<le> 6)"
  using suggest_questions_at_most_six [of demo_repository JNull]
    suggest_questions_at_most_six [of demo_repository "JObj [(''markdown'', JStr ''# demo'')]"]
    suggest_questions_at_most_six [of demo_repository demo_documentation]
    wf_demo_documentation
  by (auto simp: no_documentation_questions_def)

text \<open>
  C6. For a documentation whose \<^verbatim>\<open>json\<close> payload is an object and whose file listing
  is \<open>fk\<close> (the object under \<^verbatim>\<open>files\<close>, or the empty one when the key is missing),
  \<^verbatim>\<open>suggest_questions\<close> returns the four generic prompts followed by the file prompts as
  the specification words them: at most two, the question about the first path
  matching a keyword and the question about the second path of the listing.
\<close>

theorem suggest_questions_augmentation:
  assumes "map_of kvs ''json'' = Some (JObj dk)"
    and "py_get_default (JObj dk) ''files'' (JObj []) = Inr (JObj fk)"
  shows "suggest_questions repo (JObj kvs) =
           Inr (generic_questions @ spec_file_prompts (map fst fk))
         \<and> length (spec_file_prompts (map fst fk)) \<le> 2"
  using suggest_questions_files [OF assms] length_file_suggestions [of "map fst fk"]
  by (simp add: file_suggestions_spec)

text \<open>
  The scenario of the specification: with the files \<^verbatim>\<open>main.py\<close> and \<^verbatim>\<open>utils.py\<close> the
  result is the four generic prompts, the question about \<^verbatim>\<open>main.py\<close> and the question
  about \<^verbatim>\<open>utils.py\<close>, six in all.
\<close>

theorem suggest_questions_augmentation_witness:
  "map_of [(''json'', JObj demo_doc_json)] ''json'' = Some (JObj demo_doc_json)
   \<and> py_get_default (JObj demo_doc_json) ''files'' (JObj []) = Inr (JObj demo_files)
   \<and> suggest_questions demo_repository demo_documentation =
       Inr [''What does this repository do?'',
            ''How do I get started with this project?'',
            ''What are the main components?'',
            ''How is the code organized?'',
            ''What does main.py do?'',
            ''Explain the utils.py file'']"
proof -
  have a: "map_of [(''json'', JObj demo_doc_json)] ''json'' = Some (JObj demo_doc_json)"
    by simp
  have b: "py_get_default (JObj demo_doc_json) ''files'' (JObj []) = Inr (JObj demo_files)"
    by (simp add: demo_doc_json_def)
  have c: "spec_file_prompts (map fst demo_files) =
      [''What does main.py do?'', ''Explain the utils.py file'']"
    by (simp add: spec_file_prompts_def spec_matches_keyword_def demo_files_def lower_def
        lower_char_def)
  show ?thesis
    using suggest_questions_augmentation [OF a b, of demo_repository] a b c
    by (simp add: demo_documentation_def generic_questions_def)
qed

section \<open>Health check\<close>

text \<open>
  C8. The health check is a total function into the booleans: it answers true exactly
  when the liveness endpoint answered with status 200, and false when the request raised
  or the status is any other; there is no input on which it raises. The same holds for
  \<^verbatim>\<open>check_backend\<close> of the launcher.
\<close>

theorem check_health_total:
  "fst (test_backend_connection be) = (\<exists>body. be HealthReq = Response 200 body)
   \<and> fst (check_backend be) = (\<exists>body. be HealthReq = Response 200 body)
   \<and> (be HealthReq = RequestException
        \<longrightarrow> \<not> fst (test_backend_connection be) \<and> \<not> fst (check_backend be))
   \<and> (\<forall>code body. be HealthReq = Response code body \<and> code \<noteq> 200
        \<longrightarrow> \<not> fst (test_backend_connection be) \<and> \<not> fst (check_backend be))"
  by (auto simp: test_backend_connection_def check_backend_def split: http_result.splits)

theorem check_health_total_witness:
  "fst (test_backend_connection demo_backend) \<and> fst (check_backend demo_backend)
   \<and> down_backend HealthReq = RequestException
   \<and> \<not> fst (test_backend_connection down_backend) \<and> \<not> fst (check_backend down_backend)
   \<and> error_backend HealthReq = Response 500 None
   \<and> \<not> fst (test_backend_connection error_backend) \<and> \<not> fst (check_backend error_backend)"
  using check_health_total [of demo_backend] check_health_total [of down_backend]
    check_health_total [of error_backend]
  by (simp add: demo_backend_def down_backend_def error_backend_def)

section \<open>Facts about runs\<close>

lemma state_then_run:
  "state (then_run r k) = (if ending r = Completed then state (k (state r)) else state r)"
  by (simp add: then_run_def Let_def)

lemma effects_then_run:
  "effects (then_run r k) =
     (if ending r = Completed then effects r @ effects (k (state r)) else effects r)"
  by (simp add: then_run_def Let_def)

lemma ending_then_run:
  "ending (then_run r k) = (if ending r = Completed then ending (k (state r)) else ending r)"
  by (simp add: then_run_def Let_def)

lemmas then_run_simps = state_then_run effects_then_run ending_then_run

lemma completed_simps [simp]:
  "state (completed s fx) = s" "effects (completed s fx) = fx" "ending (completed s fx) = Completed"
  by (simp_all add: completed_def)

lemma uncaught_simps [simp]:
  "state (uncaught s fx e) = s" "effects (uncaught s fx e) = fx" "ending (uncaught s fx e) = Uncaught e"
  by (simp_all add: uncaught_def)

lemma test_backend_connection_effects: "snd (test_backend_connection be) = [Sent HealthReq]"
  by (simp add: test_backend_connection_def split: http_result.splits)

lemma connect_to_repository_no_chat: "\<not> list_ex is_chat_call (snd (connect_to_repository be u))"
  by (simp add: connect_to_repository_def Let_def split: http_result.splits option.splits)

lemma generate_documentation_no_chat: "\<not> list_ex is_chat_call (snd (generate_documentation be r))"
  by (simp add: generate_documentation_def split: http_result.splits option.splits sum.splits request.splits)
     (auto simp: generate_payload_def and_then_def split: sum.splits)

lemma health_gate_state [simp]: "state (health_gate be s) = s"
  by (simp add: health_gate_def split: prod.splits)

lemma health_gate_no_chat: "\<not> list_ex is_chat_call (effects (health_gate be s))"
  using test_backend_connection_effects [of be]
  by (auto simp add: health_gate_def split: prod.splits)

lemma health_gate_ending:
  "ending (health_gate be s) = Completed \<longleftrightarrow> (\<exists>body. be HealthReq = Response 200 body)"
  by (auto simp: health_gate_def test_backend_connection_def split: http_result.splits)

lemma connect_section_completed:
  "ending (connect_section be ev s) = Completed \<Longrightarrow> state (connect_section be ev s) = s"
  by (auto simp: connect_section_def connect_button_def split: event.splits prod.splits sum.splits if_splits)

lemma connect_section_logs:
  "messages (state (connect_section be ev s)) = messages s
   \<and> conversation_history (state (connect_section be ev s)) = conversation_history s"
  by (auto simp: connect_section_def connect_button_def split: event.splits prod.splits sum.splits if_splits)

lemma connect_section_no_chat: "\<not> list_ex is_chat_call (effects (connect_section be ev s))"
proof (cases ev)
  case (ConnectClick u)
  then show ?thesis
    using connect_to_repository_no_chat [of be u]
    by (auto simp: connect_section_def connect_button_def split: prod.splits sum.splits)
qed (simp_all add: connect_section_def)

lemma documentation_section_completed:
  "ending (documentation_section be ev s) = Completed \<Longrightarrow> state (documentation_section be ev s) = s"
  by (auto simp: documentation_section_def generate_button_def split: prod.splits sum.splits if_splits)

lemma documentation_section_logs:
  "messages (state (documentation_section be ev s)) = messages s
   \<and> conversation_history (state (documentation_section be ev s)) = conversation_history s"
  by (auto simp: documentation_section_def generate_button_def split: prod.splits sum.splits if_splits)

lemma documentation_section_no_chat: "\<not> list_ex is_chat_call (effects (documentation_section be ev s))"
  using generate_documentation_no_chat [of be "repository s"]
  by (auto simp: documentation_section_def generate_button_def split: prod.splits sum.splits)

lemma suggestion_buttons_other:
  "(\<And>i. ev \<noteq> SuggestionClick i) \<Longrightarrow> suggestion_buttons be ev xs s = completed s []"
  by (induction xs) auto

lemma suggestion_buttons_completed:
  "ending (suggestion_buttons be ev xs s) = Completed \<Longrightarrow> suggestion_buttons be ev xs s = completed s []"
  by (induction xs) (auto simp: suggestion_handler_def Let_def split: prod.splits if_splits)

lemma suggestions_section_completed:
  "ending (suggestions_section be ev s) = Completed \<Longrightarrow> suggestions_section be ev s = completed s []"
  by (auto simp: suggestions_section_def suggestion_buttons_completed split: sum.splits)

lemma wf_repository_truthy: "wf_repository r \<Longrightarrow> truthy r"
  by (auto simp: wf_repository_def has_keys_def split: json.splits)

lemma wf_repository_display: "wf_repository r \<Longrightarrow> display_repository_info r = Inr ()"
  by (auto simp: wf_repository_def has_keys_def display_repository_info_def and_then_def py_get_def
      split: json.splits option.splits)

lemma optional_list_display:
  "optional_list (map_of sk k) \<Longrightarrow> display_summary_list (JObj sk) k = Inr ()"
  by (auto simp: optional_list_def display_summary_list_def and_then_def py_get_def
      split: option.splits json.splits)

lemma wf_documentation_display:
  assumes "wf_documentation d" shows "display_documentation_summary d = Inr ()"
proof -
  from assms obtain kvs dk where d: "d = JObj kvs" "map_of kvs ''json'' = Some (JObj dk)"
    and sm: "wf_summary (map_of dk ''summary'')" by (rule wf_documentationE)
  from d have ne: "kvs \<noteq> []" by auto
  show ?thesis
  proof (cases "map_of dk ''summary''")
    case None
    with d ne show ?thesis by (simp add: display_documentation_summary_def and_then_def)
  next
    case (Some sv)
    with sm obtain sk where sv: "sv = JObj sk" "optional_list (map_of sk ''technologies'')"
      "optional_list (map_of sk ''mainComponents'')"
      by (auto simp: wf_summary_def split: json.splits)
    with d ne Some show ?thesis
      by (simp add: display_documentation_summary_def and_then_def py_get_def optional_list_display
          split: option.splits)
  qed
qed

lemma wf_documentation_file_count:
  assumes "wf_documentation d" shows "\<exists>n. documentation_file_count d = Inr n"
proof -
  from assms obtain kvs dk where d: "d = JObj kvs" "map_of kvs ''json'' = Some (JObj dk)"
    and f: "wf_files (map_of dk ''files'')" by (rule wf_documentationE)
  from f obtain fk where "py_get_default (JObj dk) ''files'' (JObj []) = Inr (JObj fk)"
    by (rule wf_filesE)
  with d show ?thesis by (simp add: documentation_file_count_def and_then_def)
qed

lemma wf_documentation_has_json:
  assumes "wf_documentation d"
  shows "py_contains ''json'' d = Inr True \<and> (\<exists>dj. py_index d ''json'' = Inr dj)"
  using assms by (rule wf_documentationE) auto

lemma sidebar_completed:
  "ending (sidebar be ev s) = Completed \<Longrightarrow> state (sidebar be ev s) = s"
  by (auto simp: sidebar_def then_run_simps connect_section_completed documentation_section_completed
      split: if_splits)

lemma sidebar_logs:
  "messages (state (sidebar be ev s)) = messages s
   \<and> conversation_history (state (sidebar be ev s)) = conversation_history s"
  by (simp add: sidebar_def then_run_simps connect_section_logs documentation_section_logs)

lemma sidebar_no_chat: "\<not> list_ex is_chat_call (effects (sidebar be ev s))"
  by (simp add: sidebar_def then_run_simps health_gate_no_chat connect_section_no_chat
      documentation_section_no_chat)

lemma main_area_gate:
  "\<not> (truthy (repository s) \<and> truthy (documentation s)) \<Longrightarrow>
     state (main_area be ev s) = s \<and> \<not> list_ex is_chat_call (effects (main_area be ev s))"
  by (auto simp: main_area_def split: sum.splits)

lemma script_gate:
  assumes "\<not> (truthy (repository s) \<and> truthy (documentation s))"
  shows "\<not> chat_issued (script be ev s)
     \<and> messages (state (script be ev s)) = messages s
     \<and> conversation_history (state (script be ev s)) = conversation_history s"
proof (cases "ending (sidebar be ev s) = Completed")
  case True
  then have "state (sidebar be ev s) = s" by (rule sidebar_completed)
  with True assms show ?thesis
    using main_area_gate [of s be ev] sidebar_no_chat [of be ev s]
    by (simp add: script_def chat_issued_def then_run_simps)
next
  case False
  then show ?thesis
    using sidebar_no_chat [of be ev s] sidebar_logs [of be ev s]
    by (simp add: script_def chat_issued_def then_run_simps)
qed

lemma sidebar_ready:
  assumes h: "be HealthReq = Response 200 body"
    and r: "wf_repository (repository s)" and d: "wf_documentation (documentation s)"
    and ev: "\<And>u. ev \<noteq> ConnectClick u"
  shows "ending (sidebar be ev s) = Completed"
proof -
  from h have 1: "ending (health_gate be s) = Completed" by (auto simp: health_gate_ending)
  from ev have 2: "connect_section be ev s = completed s []"
    by (cases ev) (auto simp: connect_section_def)
  from wf_documentation_file_count [OF d] obtain n
    where n: "documentation_file_count (documentation s) = Inr n" ..
  have 3: "ending (documentation_section be ev s) = Completed"
    using wf_repository_truthy [OF r] wf_documentation_truthy [OF d] wf_documentation_has_json [OF d] n
    by (simp add: documentation_section_def)
  show ?thesis using 1 2 3 by (simp add: sidebar_def then_run_simps)
qed

lemma script_chat_input:
  assumes h: "be HealthReq = Response 200 body"
    and r: "wf_repository (repository s)" and d: "wf_documentation (documentation s)"
    and p: "prompt \<noteq> []"
  shows "state (script be (ChatInput prompt) s) = state (chat_input_handler be prompt s)
     \<and> effects (script be (ChatInput prompt) s) =
         effects (sidebar be (ChatInput prompt) s) @ effects (chat_input_handler be prompt s)"
proof -
  have sb: "ending (sidebar be (ChatInput prompt) s) = Completed"
    using h r d by (rule sidebar_ready) simp
  then have st: "state (sidebar be (ChatInput prompt) s) = s" by (rule sidebar_completed)
  obtain qs where qs: "suggest_questions (repository s) (documentation s) = Inr qs"
    using suggest_questions_wf [OF d] by blast
  have sg: "suggestions_section be (ChatInput prompt) s = completed s []"
    using qs by (simp add: suggestions_section_def suggestion_buttons_other)
  have hc: "ending (chat_input_handler be prompt s) = Completed"
    by (simp add: chat_input_handler_def Let_def split: prod.splits)
  have ma: "main_area be (ChatInput prompt) s =
      then_run (then_run (completed s []) (chat_input_section be (ChatInput prompt)))
        (clear_chat_section (ChatInput prompt))"
    using wf_repository_truthy [OF r] wf_documentation_truthy [OF d] wf_repository_display [OF r]
      wf_documentation_display [OF d] sg
    by (simp add: main_area_def)
  show ?thesis
    using sb st p hc
    by (simp add: script_def ma then_run_simps chat_input_section_def clear_chat_section_def)
qed

lemma chat_input_handler_sends:
  assumes "py_index (documentation s) ''json'' = Inr dj"
  shows "Sent (ChatReq prompt (repository s) dj (conversation_history s @ [ChatMessage User (JStr prompt)]))
     \<in> set (effects (chat_input_handler be prompt s))"
  using assms
  by (auto simp: chat_input_handler_def chat_with_repository_def append_message_def Let_def
      split: http_result.splits option.splits sum.splits)

lemma list_ex_chat_call:
  "Sent (ChatReq m r d h) \<in> set fx \<Longrightarrow> list_ex is_chat_call fx"
  by (auto simp: list_ex_iff intro!: bexI [where x = "Sent (ChatReq m r d h)"])

lemma suggestion_handler_logs:
  "messages s = conversation_history s \<Longrightarrow>
   messages (state (suggestion_handler be q s)) = conversation_history (state (suggestion_handler be q s))"
  by (simp add: suggestion_handler_def append_message_def Let_def split: prod.splits)

lemma suggestion_buttons_logs:
  "messages s = conversation_history s \<Longrightarrow>
   messages (state (suggestion_buttons be ev xs s)) = conversation_history (state (suggestion_buttons be ev xs s))"
  by (induction xs) (auto simp: suggestion_handler_logs)

lemma suggestions_section_logs:
  "messages s = conversation_history s \<Longrightarrow>
   messages (state (suggestions_section be ev s)) = conversation_history (state (suggestions_section be ev s))"
  by (simp add: suggestions_section_def suggestion_buttons_logs split: sum.splits)

lemma chat_input_section_logs:
  "messages s = conversation_history s \<Longrightarrow>
   messages (state (chat_input_section be ev s)) = conversation_history (state (chat_input_section be ev s))"
  by (simp add: chat_input_section_def chat_input_handler_def append_message_def Let_def
      split: event.splits prod.splits)

lemma clear_chat_section_logs:
  "messages s = conversation_history s \<Longrightarrow>
   messages (state (clear_chat_section ev s)) = conversation_history (state (clear_chat_section ev s))"
  by (simp add: clear_chat_section_def clear_chat_def)

lemma main_area_logs:
  "messages s = conversation_history s \<Longrightarrow>
   messages (state (main_area be ev s)) = conversation_history (state (main_area be ev s))"
  by (simp add: main_area_def then_run_simps suggestions_section_logs chat_input_section_logs
      clear_chat_section_logs split: sum.splits)

lemma script_logs:
  assumes "messages s = conversation_history s"
  shows "messages (state (script be ev s)) = conversation_history (state (script be ev s))"
proof -
  have "messages (state (sidebar be ev s)) = conversation_history (state (sidebar be ev s))"
    using assms sidebar_logs [of be ev s] by simp
  then show ?thesis
    by (simp add: script_def then_run_simps main_area_logs)
qed

lemma sidebar_state_other:
  assumes "\<And>u. ev \<noteq> ConnectClick u" "ev \<noteq> GenerateClick"
  shows "state (sidebar be ev s) = s"
proof -
  from assms(1) have 2: "connect_section be ev s = completed s []"
    by (cases ev) (auto simp: connect_section_def)
  have 3: "state (documentation_section be ev s) = s"
    using assms(2) by (simp add: documentation_section_def split: sum.splits)
  show ?thesis using 2 3 by (simp add: sidebar_def then_run_simps)
qed

lemma suggestions_section_state_other:
  "(\<And>i. ev \<noteq> SuggestionClick i) \<Longrightarrow> state (suggestions_section be ev s) = s"
  by (simp add: suggestions_section_def suggestion_buttons_other split: sum.splits)

lemma main_area_clear:
  "state (main_area be ClearClick s) = s \<or> state (main_area be ClearClick s) = clear_chat s"
  by (simp add: main_area_def then_run_simps suggestions_section_state_other
      chat_input_section_def clear_chat_section_def split: sum.splits)

lemma script_clear:
  "state (script be ClearClick s) = s \<or> state (script be ClearClick s) = clear_chat s"
  using main_area_clear [of be s]
  by (simp add: script_def then_run_simps sidebar_state_other)

lemma clear_chat_twice: "clear_chat (clear_chat s) = clear_chat s"
  by (simp add: clear_chat_def)

lemma connect_button_success:
  assumes "url \<noteq> []" "be (ConnectReq url) = Response 200 (Some (JObj kvs))"
    "map_of kvs ''success'' = Some ok" "truthy ok" "map_of kvs ''repository'' = Some repo"
  shows "state (connect_button be url s) = s\<lparr>repository := repo, documentation := JNull\<rparr>
     \<and> ending (connect_button be url s) = Rerun"
proof -
  from assms(3) have "kvs \<noteq> []" by auto
  with assms show ?thesis
    by (simp add: connect_button_def connect_to_repository_def Let_def py_get_def)
qed

lemma chat_with_repository_cases:
  assumes "py_index doc ''json'' = Inr dj"
  shows "chat_with_repository be m repo doc h =
     (let req = ChatReq m repo dj h in
      case be req of
        RequestException \<Rightarrow> (JNull, [Sent req, Notice (StError ''Error in chat: '')])
      | Response code body \<Rightarrow>
          if code = 200 then
            (case body of
               None \<Rightarrow> (JNull, [Sent req, Notice (StError ''Error in chat: '')])
             | Some j \<Rightarrow>
                 (case py_index j ''reply'' of
                    Inl e \<Rightarrow> (JNull, [Sent req, Notice (StError ''Error in chat: '')])
                  | Inr reply \<Rightarrow> (reply, [Sent req])))
          else (JNull, [Sent req, Notice (StError ''Chat failed: '')]))"
  using assms by (simp add: chat_with_repository_def Let_def)

lemma chat_with_repository_failed:
  assumes "py_index doc ''json'' = Inr dj" "call_failed (be (ChatReq m repo dj h))"
  shows "fst (chat_with_repository be m repo doc h) = JNull"
  using assms by (auto simp: chat_with_repository_def call_failed_def Let_def split: http_result.splits)

lemma chat_with_repository_reply:
  assumes "py_index doc ''json'' = Inr dj" "be (ChatReq m repo dj h) = Response 200 (Some j)"
    "py_index j ''reply'' = Inr reply"
  shows "chat_with_repository be m repo doc h = (reply, [Sent (ChatReq m repo dj h)])"
  using assms by (simp add: chat_with_repository_def Let_def)





lemma calls_failed_append:
  "calls_failed be (fx @ fx') \<longleftrightarrow> calls_failed be fx \<and> calls_failed be fx'"
  by (auto simp: calls_failed_def)

lemma connect_to_repository_failed:
  "calls_failed be (snd (connect_to_repository be u)) \<Longrightarrow> fst (connect_to_repository be u) = JNull"
  by (auto simp: connect_to_repository_def calls_failed_def call_failed_def Let_def
      split: http_result.splits option.splits if_splits)

lemma generate_payload_request:
  "generate_payload r = Inr req \<Longrightarrow> req \<noteq> HealthReq"
  by (auto simp: generate_payload_def and_then_def split: sum.splits)

lemma generate_documentation_failed:
  "calls_failed be (snd (generate_documentation be r)) \<Longrightarrow> fst (generate_documentation be r) = JNull"
  by (auto simp: generate_documentation_def calls_failed_def call_failed_def Let_def
      dest: generate_payload_request
      split: http_result.splits option.splits if_splits sum.splits)

lemma connect_button_effects:
  "u \<noteq> [] \<Longrightarrow> set (snd (connect_to_repository be u)) \<subseteq> set (effects (connect_button be u s))"
  by (auto simp: connect_button_def split: prod.splits sum.splits)

lemma generate_button_effects:
  "set (snd (generate_documentation be (repository s))) \<subseteq> set (effects (generate_button be s))"
  by (auto simp: generate_button_def split: prod.splits sum.splits)

lemma calls_failed_mono: "set fx \<subseteq> set fx' \<Longrightarrow> calls_failed be fx' \<Longrightarrow> calls_failed be fx"
  by (auto simp: calls_failed_def)

lemma connect_button_failed:
  assumes "calls_failed be (effects (connect_button be u s))"
  shows "state (connect_button be u s) = s"
proof (cases "u = []")
  case True
  then show ?thesis by (simp add: connect_button_def)
next
  case False
  from calls_failed_mono [OF connect_button_effects [OF False] assms]
  have "fst (connect_to_repository be u) = JNull" by (rule connect_to_repository_failed)
  then show ?thesis by (auto simp: connect_button_def split: prod.splits)
qed

lemma generate_button_failed:
  assumes "calls_failed be (effects (generate_button be s))"
  shows "state (generate_button be s) = s"
proof -
  from calls_failed_mono [OF generate_button_effects assms]
  have "fst (generate_documentation be (repository s)) = JNull" by (rule generate_documentation_failed)
  then show ?thesis by (auto simp: generate_button_def split: prod.splits)
qed

lemma connect_section_failed:
  "calls_failed be (effects (connect_section be ev s)) \<Longrightarrow> state (connect_section be ev s) = s"
  by (cases ev) (simp_all add: connect_section_def connect_button_failed)

lemma documentation_section_failed:
  "calls_failed be (effects (documentation_section be ev s)) \<Longrightarrow> state (documentation_section be ev s) = s"
  by (auto simp: documentation_section_def generate_button_failed split: sum.splits if_splits)

lemma sidebar_failed:
  assumes "calls_failed be (effects (sidebar be ev s))"
  shows "state (sidebar be ev s) = s"
  using assms
  by (auto simp: sidebar_def then_run_simps calls_failed_append connect_section_failed
      documentation_section_failed connect_section_completed split: if_splits)

lemma suggestion_buttons_fields:
  "repository (state (suggestion_buttons be ev xs s)) = repository s
   \<and> documentation (state (suggestion_buttons be ev xs s)) = documentation s"
  by (induction xs) (auto simp: suggestion_handler_def append_message_def Let_def split: prod.splits)

lemma main_area_fields:
  "repository (state (main_area be ev s)) = repository s
   \<and> documentation (state (main_area be ev s)) = documentation s"
  by (auto simp: main_area_def then_run_simps suggestions_section_def suggestion_buttons_fields
      chat_input_section_def chat_input_handler_def clear_chat_section_def clear_chat_def
      append_message_def Let_def
      split: sum.splits event.splits prod.splits)

lemma main_area_state_other:
  assumes "\<And>i. ev \<noteq> SuggestionClick i" "\<And>p. ev \<noteq> ChatInput p" "ev \<noteq> ClearClick"
  shows "state (main_area be ev s) = s"
  using assms
  by (cases ev) (auto simp: main_area_def then_run_simps suggestions_section_state_other
      chat_input_section_def clear_chat_section_def split: sum.splits)

lemmas run_defs =
  script_def sidebar_def then_run_def health_gate_def test_backend_connection_def
  connect_section_def connect_button_def connect_to_repository_def
  documentation_section_def generate_button_def generate_documentation_def generate_payload_def
  documentation_file_count_def main_area_def display_repository_info_def
  display_documentation_summary_def display_summary_list_def
  suggestions_section_def suggest_questions_def generic_questions_def file_suggestions_def
  is_main_file_def main_keywords_def lower_def lower_char_def
  chat_input_section_def chat_input_handler_def suggestion_handler_def chat_with_repository_def
  clear_chat_section_def clear_chat_def append_message_def
  completed_def uncaught_def and_then_def py_get_def Let_def

lemmas demo_defs =
  demo_backend_def demo_repository_def other_repository_def demo_documentation_def
  demo_doc_json_def demo_files_def initial_session_def connected_session_def demo_session_def
  chatted_session_def

lemma demo_connect:
  "state (script demo_backend (ConnectClick ''https://github.com/octo/demo'') initial_session)
     = connected_session"
  by (simp add: run_defs demo_defs)

lemma demo_generate: "state (script demo_backend GenerateClick connected_session) = demo_session"
  by (simp add: run_defs demo_defs)

lemma demo_chat: "state (script demo_backend (ChatInput ''hello'') demo_session) = chatted_session"
  by (simp add: run_defs demo_defs)

lemma demo_suggestion:
  "state (script demo_backend (SuggestionClick 4) demo_session) =
     demo_session\<lparr>messages := [ChatMessage User (JStr ''What does main.py do?''),
        ChatMessage Assistant (JStr ''It is a demo.'')],
       conversation_history := [ChatMessage User (JStr ''What does main.py do?''),
        ChatMessage Assistant (JStr ''It is a demo.'')]\<rparr>"
  by (simp add: run_defs demo_defs enumerate_eq_zip upt_rec)

lemma demo_clear: "state (script demo_backend ClearClick chatted_session) = demo_session"
  by (simp add: run_defs demo_defs)

lemma wf_demo_repository: "wf_repository demo_repository"
  by (simp add: wf_repository_def has_keys_def demo_repository_def)

lemma wf_demo_session: "wf_session demo_session"
  by (simp add: wf_session_def demo_session_def wf_demo_repository wf_demo_documentation)

lemma wf_initial_session: "wf_session initial_session"
  by (simp add: wf_session_def initial_session_def)

lemma reachable_demo_session: "reachable demo_session"
proof -
  have 0: "reachable initial_session"
    using reachable.start by (simp add: init_session_state_def)
  from reachable.step [OF 0, of demo_backend "ConnectClick ''https://github.com/octo/demo''"]
  have 1: "reachable connected_session"
    by (simp add: run_script_def init_session_state_def demo_connect)
  from reachable.step [OF 1, of demo_backend GenerateClick]
  show ?thesis by (simp add: run_script_def init_session_state_def demo_generate)
qed

lemma failing_backend_fails: "req \<noteq> HealthReq \<Longrightarrow> call_failed (failing_backend req)"
  by (cases req) (simp_all add: failing_backend_def call_failed_def)

lemma demo_session_json: "py_index (documentation demo_session) ''json'' = Inr (JObj demo_doc_json)"
  by (simp add: demo_session_def demo_documentation_def)

lemma demo_session_fields:
  "repository demo_session = demo_repository" "conversation_history demo_session = []"
  "messages demo_session = []"
  by (simp_all add: demo_session_def)

lemma empty_reply_backend_chat:
  "empty_reply_backend (ChatReq m r d h) = Response 200 (Some (JObj [(''reply'', JStr [])]))"
  by (simp add: empty_reply_backend_def)


section \<open>Chat is gated by repository and documentation\<close>

lemma returns_iff: "returns r \<longleftrightarrow> (\<exists>v. r = Inr v)"
  by (cases r) (simp_all add: returns_def)

lemma chat_with_repository_chat_call:
  "list_ex is_chat_call (snd (chat_with_repository be m repo doc h)) \<Longrightarrow>
     returns (py_index doc ''json'')"
  by (auto simp: chat_with_repository_def returns_def split: sum.splits)

lemma suggestion_handler_chat_call:
  "list_ex is_chat_call (effects (suggestion_handler be q s)) \<Longrightarrow>
     returns (py_index (documentation s) ''json'')"
  using chat_with_repository_chat_call
    [of be q "repository s" "documentation s"
      "conversation_history s @ [ChatMessage User (JStr q)]"]
  by (auto simp: suggestion_handler_def append_message_def Let_def split: prod.splits)

lemma chat_input_handler_chat_call:
  "list_ex is_chat_call (effects (chat_input_handler be q s)) \<Longrightarrow>
     returns (py_index (documentation s) ''json'')"
  using chat_with_repository_chat_call
    [of be q "repository s" "documentation s"
      "conversation_history s @ [ChatMessage User (JStr q)]"]
  by (auto simp: chat_input_handler_def append_message_def Let_def chat_error_notice_def
      split: prod.splits if_splits)

lemma suggestion_buttons_chat_call:
  "list_ex is_chat_call (effects (suggestion_buttons be ev xs s)) \<Longrightarrow>
     returns (py_index (documentation s) ''json'')"
  by (induction xs) (auto simp: suggestion_handler_chat_call split: if_splits)

lemma suggestions_section_chat_call:
  "list_ex is_chat_call (effects (suggestions_section be ev s)) \<Longrightarrow>
     returns (py_index (documentation s) ''json'')"
  by (auto simp: suggestions_section_def suggestion_buttons_chat_call split: sum.splits)

lemma suggestions_section_chat_call_returns:
  "list_ex is_chat_call (effects (suggestions_section be ev s)) \<Longrightarrow>
     returns (suggest_questions (repository s) (documentation s))"
  by (auto simp: suggestions_section_def returns_def split: sum.splits)

lemma suggestions_section_completed_returns:
  "ending (suggestions_section be ev s) = Completed \<Longrightarrow>
     returns (suggest_questions (repository s) (documentation s))"
  by (auto simp: suggestions_section_def returns_def split: sum.splits)

lemma chat_input_section_chat_call:
  "list_ex is_chat_call (effects (chat_input_section be ev s)) \<Longrightarrow>
     returns (py_index (documentation s) ''json'')"
  by (cases ev) (auto simp: chat_input_section_def chat_input_handler_chat_call split: if_splits)

lemma clear_chat_section_no_chat: "\<not> list_ex is_chat_call (effects (clear_chat_section ev s))"
  by (simp add: clear_chat_section_def)

lemma main_area_chat_call:
  assumes "list_ex is_chat_call (effects (main_area be ev s))"
  shows "truthy (repository s) \<and> truthy (documentation s)
     \<and> returns (py_index (documentation s) ''json'')
     \<and> returns (display_repository_info (repository s))
     \<and> returns (display_documentation_summary (documentation s))
     \<and> returns (suggest_questions (repository s) (documentation s))"
proof -
  from assms have t: "truthy (repository s)" "truthy (documentation s)"
    using main_area_gate [of s be ev] by auto
  from assms t have r: "returns (display_repository_info (repository s))"
    by (auto simp: main_area_def returns_def split: sum.splits)
  from assms t have d: "returns (display_documentation_summary (documentation s))"
    by (auto simp: main_area_def returns_def split: sum.splits)
  from assms t r d have body: "list_ex is_chat_call
      (effects (then_run (then_run (suggestions_section be ev s) (chat_input_section be ev))
         (clear_chat_section ev)))"
    by (auto simp: main_area_def returns_def split: sum.splits)
  have "returns (py_index (documentation s) ''json'')
     \<and> returns (suggest_questions (repository s) (documentation s))"
  proof (cases "list_ex is_chat_call (effects (suggestions_section be ev s))")
    case True
    then show ?thesis
      by (simp add: suggestions_section_chat_call suggestions_section_chat_call_returns)
  next
    case False
    with body have c: "ending (suggestions_section be ev s) = Completed"
      and i: "list_ex is_chat_call
         (effects (chat_input_section be ev (state (suggestions_section be ev s))))"
      by (auto simp: then_run_simps clear_chat_section_no_chat split: if_splits)
    from c have "suggestions_section be ev s = completed s []"
      by (rule suggestions_section_completed)
    with i have "list_ex is_chat_call (effects (chat_input_section be ev s))" by simp
    then show ?thesis
      using c by (simp add: chat_input_section_chat_call suggestions_section_completed_returns)
  qed
  with t r d show ?thesis by simp
qed

lemma documentation_section_completed_count:
  assumes "ending (documentation_section be ev s) = Completed"
    and "truthy (repository s)" and "returns (py_index (documentation s) ''json'')"
  shows "returns (documentation_file_count (documentation s))"
proof -
  from assms(3) obtain kvs v where d: "documentation s = JObj kvs" "map_of kvs ''json'' = Some v"
    by (cases "documentation s") (auto simp: returns_def split: option.splits)
  then have "kvs \<noteq> []" by auto
  with assms(1,2) d show ?thesis
    by (auto simp: documentation_section_def returns_def split: sum.splits)
qed

lemma sidebar_completed_count:
  assumes "ending (sidebar be ev s) = Completed"
    and "truthy (repository s)" and "returns (py_index (documentation s) ''json'')"
  shows "returns (documentation_file_count (documentation s))"
proof -
  from assms(1) have 1: "ending (connect_section be ev s) = Completed"
    and h: "ending (health_gate be s) = Completed"
    by (auto simp: sidebar_def then_run_simps split: if_splits)
  from 1 have 2: "state (connect_section be ev s) = s" by (rule connect_section_completed)
  from assms(1) h 1 2 have "ending (documentation_section be ev s) = Completed"
    by (simp add: sidebar_def then_run_simps)
  then show ?thesis using assms(2,3) by (rule documentation_section_completed_count)
qed

lemma chat_issued_ready:
  assumes "chat_issued (script be ev s)"
  shows "chat_ready s"
proof -
  from assms have m: "list_ex is_chat_call (effects (script be ev s))"
    by (simp add: chat_issued_def)
  have sb: "ending (sidebar be ev s) = Completed"
    using m sidebar_no_chat [of be ev s] by (auto simp: script_def then_run_simps split: if_splits)
  then have st: "state (sidebar be ev s) = s" by (rule sidebar_completed)
  from m sb st have "list_ex is_chat_call (effects (main_area be ev s))"
    using sidebar_no_chat [of be ev s] by (simp add: script_def then_run_simps)
  from main_area_chat_call [OF this] sidebar_completed_count [OF sb]
  show ?thesis by (simp add: chat_ready_def)
qed

lemma chat_ready_run:
  assumes rdy: "chat_ready s" and h: "be HealthReq = Response 200 body" and p: "prompt \<noteq> []"
  shows "chat_issued (script be (ChatInput prompt) s)"
proof -
  from rdy have t: "truthy (repository s)" "truthy (documentation s)"
    and j: "returns (py_index (documentation s) ''json'')"
    and n: "returns (documentation_file_count (documentation s))"
    and r: "returns (display_repository_info (repository s))"
    and d: "returns (display_documentation_summary (documentation s))"
    and q: "returns (suggest_questions (repository s) (documentation s))"
    by (simp_all add: chat_ready_def)
  from j obtain dj where dj: "py_index (documentation s) ''json'' = Inr dj"
    by (auto simp: returns_iff)
  then have c: "py_contains ''json'' (documentation s) = Inr True"
    by (cases "documentation s") (auto split: option.splits)
  from h have 1: "ending (health_gate be s) = Completed" by (auto simp: health_gate_ending)
  have 2: "connect_section be (ChatInput prompt) s = completed s []"
    by (simp add: connect_section_def)
  have 3: "ending (documentation_section be (ChatInput prompt) s) = Completed"
    using t c n by (auto simp: documentation_section_def returns_iff)
  have sb: "ending (sidebar be (ChatInput prompt) s) = Completed"
    using 1 2 3 by (simp add: sidebar_def then_run_simps)
  then have st: "state (sidebar be (ChatInput prompt) s) = s" by (rule sidebar_completed)
  from q obtain qs where qs: "suggest_questions (repository s) (documentation s) = Inr qs"
    by (auto simp: returns_iff)
  have sg: "suggestions_section be (ChatInput prompt) s = completed s []"
    using qs by (simp add: suggestions_section_def suggestion_buttons_other)
  have ma: "main_area be (ChatInput prompt) s =
      then_run (then_run (completed s []) (chat_input_section be (ChatInput prompt)))
        (clear_chat_section (ChatInput prompt))"
    using t r d sg by (auto simp: main_area_def returns_iff)
  have "list_ex is_chat_call (effects (chat_input_handler be prompt s))"
    using chat_input_handler_sends [OF dj, of prompt be] by (rule list_ex_chat_call)
  then show ?thesis
    using sb st p
    by (simp add: chat_issued_def script_def ma then_run_simps chat_input_section_def)
qed

lemma chat_reachable_ready: "chat_reachable s \<longleftrightarrow> chat_ready s"
proof
  assume "chat_reachable s"
  then show "chat_ready s" by (auto simp: chat_reachable_def dest: chat_issued_ready)
next
  assume r: "chat_ready s"
  have h: "demo_backend HealthReq = Response 200 None" by (simp add: demo_backend_def)
  have "chat_issued (script demo_backend (ChatInput ''hello'') s)"
    using r h by (rule chat_ready_run) simp
  then show "chat_reachable s" by (auto simp: chat_reachable_def)
qed

lemma chat_ready_set: "chat_ready s \<Longrightarrow> repository s \<noteq> JNull \<and> documentation s \<noteq> JNull"
  by (auto simp: chat_ready_def)

lemma wf_session_ready:
  assumes "wf_session s" "repository s \<noteq> JNull" "documentation s \<noteq> JNull"
  shows "chat_ready s"
proof -
  from assms have r: "wf_repository (repository s)" and d: "wf_documentation (documentation s)"
    by (auto simp: wf_session_def)
  show ?thesis
    using wf_repository_truthy [OF r] wf_documentation_truthy [OF d] wf_repository_display [OF r]
      wf_documentation_display [OF d] wf_documentation_file_count [OF d]
      wf_documentation_has_json [OF d]
      suggest_questions_wf [OF d, of "repository s"]
    by (auto simp: chat_ready_def returns_iff)
qed

lemma chat_ready_demo_session: "chat_ready demo_session"
  using wf_session_ready [OF wf_demo_session]
  by (simp add: demo_session_def demo_repository_def demo_documentation_def)

lemma markdown_connect:
  "state (script markdown_backend (ConnectClick ''https://github.com/octo/demo'') initial_session)
     = connected_session"
  by (simp add: run_defs demo_defs markdown_backend_def)

lemma markdown_generate:
  "state (script markdown_backend GenerateClick connected_session) = markdown_session"
  by (simp add: run_defs demo_defs markdown_backend_def markdown_session_def
      markdown_documentation_def)

lemma reachable_markdown_session: "reachable markdown_session"
proof -
  have 0: "reachable initial_session"
    using reachable.start by (simp add: init_session_state_def)
  from reachable.step [OF 0, of markdown_backend "ConnectClick ''https://github.com/octo/demo''"]
  have 1: "reachable connected_session"
    by (simp add: run_script_def init_session_state_def markdown_connect)
  from reachable.step [OF 1, of markdown_backend GenerateClick]
  show ?thesis by (simp add: run_script_def init_session_state_def markdown_generate)
qed

lemma unfilled_connect:
  "state (script unfilled_backend (ConnectClick ''https://github.com/octo/demo'') initial_session)
     = connected_session"
  by (simp add: run_defs demo_defs unfilled_backend_def)

lemma unfilled_generate:
  "state (script unfilled_backend GenerateClick connected_session) = unfilled_session"
  by (simp add: run_defs demo_defs unfilled_backend_def unfilled_session_def)

lemma reachable_unfilled_session: "reachable unfilled_session"
proof -
  have 0: "reachable initial_session"
    using reachable.start by (simp add: init_session_state_def)
  from reachable.step [OF 0, of unfilled_backend "ConnectClick ''https://github.com/octo/demo''"]
  have 1: "reachable connected_session"
    by (simp add: run_script_def init_session_state_def unfilled_connect)
  from reachable.step [OF 1, of unfilled_backend GenerateClick]
  show ?thesis by (simp add: run_script_def init_session_state_def unfilled_generate)
qed

lemma markdown_chat:
  "\<not> chat_issued (script demo_backend (ChatInput ''hello'') markdown_session)
   \<and> Notice (StError ''Error in chat: '')
       \<in> set (effects (script demo_backend (ChatInput ''hello'') markdown_session))"
  by (simp add: run_defs demo_defs markdown_session_def markdown_documentation_def
      chat_issued_def no_documentation_questions_def chat_error_notice_def)

text \<open>
  C1, as amended. For every session: the chat is reachable exactly when the session is
  ready for it, that is, both \<^verbatim>\<open>repository\<close> and \<^verbatim>\<open>documentation\<close> are true, the
  documentation carries its \<^verbatim>\<open>json\<close> payload, and the code before the chat section
  raises nothing on them; if the chat is reachable then both fields are set; and while
  either is unset (\<^verbatim>\<open>None\<close>, or any other value that is not true) no run issues a chat
  call and no run appends to \<^verbatim>\<open>messages\<close> or \<^verbatim>\<open>conversation_history\<close>, whatever the action
  and the backend. For a session whose repository and documentation are each \<^verbatim>\<open>None\<close> or
  of the contract's shape, the chat is reachable if and only if both are set.
\<close>

theorem chat_reachable_iff_ready:
  "(chat_reachable s \<longleftrightarrow> chat_ready s)
   \<and> (chat_reachable s \<longrightarrow> repository s \<noteq> JNull \<and> documentation s \<noteq> JNull)
   \<and> (wf_session s \<longrightarrow>
        (chat_reachable s \<longleftrightarrow> repository s \<noteq> JNull \<and> documentation s \<noteq> JNull))
   \<and> (\<forall>be ev. repository s = JNull \<or> documentation s = JNull
          \<or> \<not> truthy (repository s) \<or> \<not> truthy (documentation s) \<longrightarrow>
        \<not> chat_issued (script be ev s)
        \<and> messages (state (script be ev s)) = messages s
        \<and> conversation_history (state (script be ev s)) = conversation_history s)"
proof -
  have a: "chat_reachable s \<longleftrightarrow> chat_ready s" by (rule chat_reachable_ready)
  have b: "repository s \<noteq> JNull \<and> documentation s \<noteq> JNull" if "chat_reachable s"
    using that a chat_ready_set by blast
  have c: "chat_reachable s \<longleftrightarrow> repository s \<noteq> JNull \<and> documentation s \<noteq> JNull"
    if "wf_session s"
    using that a b wf_session_ready [of s] by blast
  have d: "\<not> chat_issued (script be ev s)
        \<and> messages (state (script be ev s)) = messages s
        \<and> conversation_history (state (script be ev s)) = conversation_history s"
    if "repository s = JNull \<or> documentation s = JNull
          \<or> \<not> truthy (repository s) \<or> \<not> truthy (documentation s)" for be ev
  proof -
    from that have "\<not> (truthy (repository s) \<and> truthy (documentation s))" by auto
    then show ?thesis by (rule script_gate)
  qed
  from a b c d show ?thesis by blast
qed

text \<open>
  C1 as it is stated fails. Connecting and generating lead to a session whose
  documentation is set but has no \<^verbatim>\<open>json\<close> payload: both fields are set, yet no run
  issues a chat call (a submitted question ends in the notice of the \<^verbatim>\<open>except\<close> branch
  of \<^verbatim>\<open>chat_with_repository\<close>, before any request). The same holds when the
  documentation is set to the empty object, which is not true.
\<close>

theorem chat_reachable_iff_ready_counterexample:
  "reachable markdown_session
   \<and> repository markdown_session \<noteq> JNull
   \<and> documentation markdown_session \<noteq> JNull
   \<and> \<not> chat_reachable markdown_session
   \<and> \<not> chat_issued (script demo_backend (ChatInput ''hello'') markdown_session)
   \<and> Notice (StError ''Error in chat: '')
       \<in> set (effects (script demo_backend (ChatInput ''hello'') markdown_session))
   \<and> reachable unfilled_session
   \<and> repository unfilled_session \<noteq> JNull
   \<and> documentation unfilled_session \<noteq> JNull
   \<and> \<not> chat_reachable unfilled_session"
proof -
  have "\<not> chat_ready markdown_session"
    by (simp add: chat_ready_def markdown_session_def markdown_documentation_def returns_def)
  then have m: "\<not> chat_reachable markdown_session" by (simp add: chat_reachable_ready)
  have "\<not> chat_ready unfilled_session"
    by (simp add: chat_ready_def unfilled_session_def)
  then have e: "\<not> chat_reachable unfilled_session" by (simp add: chat_reachable_ready)
  have s: "repository markdown_session \<noteq> JNull" "documentation markdown_session \<noteq> JNull"
    "repository unfilled_session \<noteq> JNull" "documentation unfilled_session \<noteq> JNull"
    by (simp_all add: markdown_session_def markdown_documentation_def unfilled_session_def
        demo_repository_def)
  from m e s reachable_markdown_session reachable_unfilled_session markdown_chat
  show ?thesis by simp
qed

theorem chat_reachable_iff_ready_witness:
  "chat_ready demo_session
   \<and> chat_reachable demo_session
   \<and> wf_session demo_session
   \<and> repository initial_session = JNull
   \<and> \<not> chat_issued (script demo_backend (ChatInput ''hello'') initial_session)
   \<and> messages (state (script demo_backend (ChatInput ''hello'') initial_session)) = []
   \<and> conversation_history (state (script demo_backend (ChatInput ''hello'') initial_session)) = []"
proof -
  have u: "repository initial_session = JNull" "messages initial_session = []"
    "conversation_history initial_session = []"
    by (simp_all add: initial_session_def)
  show ?thesis
    using chat_reachable_iff_ready [of demo_session] chat_reachable_iff_ready [of initial_session] chat_ready_demo_session
      wf_demo_session u
    by auto
qed

section \<open>Connecting resets the documentation\<close>

text \<open>
  C2. A run in which the health check passes, the URL field is not empty and the
  connect call answers 200 with a true \<^verbatim>\<open>success\<close> and a \<^verbatim>\<open>repository\<close> leaves the session
  with that repository and with \<^verbatim>\<open>documentation\<close> set to \<^verbatim>\<open>None\<close>, whatever the session
  held before; in particular after connect(A); generate(); connect(B), for any
  starting session and any answers to the first two runs.
\<close>

theorem connect_clears_documentation:
  assumes "be HealthReq = Response 200 body" "url \<noteq> []"
    "be (ConnectReq url) = Response 200 (Some (JObj kvs))"
    "map_of kvs ''success'' = Some ok" "truthy ok" "map_of kvs ''repository'' = Some repo"
  shows "state (script be (ConnectClick url) s) = s\<lparr>repository := repo, documentation := JNull\<rparr>
    \<and> documentation (state (script be (ConnectClick url)
         (state (script be2 GenerateClick (state (script be1 (ConnectClick url1) s0)))))) = JNull
    \<and> repository (state (script be (ConnectClick url)
         (state (script be2 GenerateClick (state (script be1 (ConnectClick url1) s0)))))) = repo"
proof -
  have any: "state (script be (ConnectClick url) s) = s\<lparr>repository := repo, documentation := JNull\<rparr>" for s
  proof -
    from assms(1) have 1: "ending (health_gate be s) = Completed" by (auto simp: health_gate_ending)
    show ?thesis
      using 1 connect_button_success [where be = be and url = url and s = s, OF assms(2-6)]
      by (simp add: script_def sidebar_def then_run_simps connect_section_def)
  qed
  show ?thesis by (simp add: any)
qed

theorem connect_clears_documentation_witness:
  "demo_backend HealthReq = Response 200 None
   \<and> documentation (state (script demo_backend GenerateClick
        (state (script demo_backend (ConnectClick ''https://github.com/octo/demo'')
           initial_session)))) = demo_documentation
   \<and> demo_documentation \<noteq> JNull
   \<and> documentation (state (script demo_backend (ConnectClick ''https://github.com/octo/other'')
        (state (script demo_backend GenerateClick
           (state (script demo_backend (ConnectClick ''https://github.com/octo/demo'')
              initial_session)))))) = JNull
   \<and> repository (state (script demo_backend (ConnectClick ''https://github.com/octo/other'')
        (state (script demo_backend GenerateClick
           (state (script demo_backend (ConnectClick ''https://github.com/octo/demo'')
              initial_session)))))) = other_repository"
proof -
  have h: "demo_backend HealthReq = Response 200 None" by (simp add: demo_backend_def)
  have u: "''https://github.com/octo/other'' \<noteq> []" by simp
  have c: "demo_backend (ConnectReq ''https://github.com/octo/other'') =
      Response 200 (Some (JObj [(''success'', JBool True), (''repository'', other_repository)]))"
    by (simp add: demo_backend_def)
  have s: "map_of [(''success'', JBool True), (''repository'', other_repository)] ''success''
      = Some (JBool True)" by simp
  have t: "truthy (JBool True)" by simp
  have r: "map_of [(''success'', JBool True), (''repository'', other_repository)] ''repository''
      = Some other_repository" by simp
  have d: "demo_documentation \<noteq> JNull" by (simp add: demo_documentation_def)
  show ?thesis
    using connect_clears_documentation [where be = demo_backend and ?url = "''https://github.com/octo/other''"
        and ?be1.0 = demo_backend and ?be2.0 = demo_backend
        and ?url1.0 = "''https://github.com/octo/demo''" and ?s0.0 = initial_session,
        OF h u c s t r] h d
    by (simp add: demo_connect demo_generate demo_session_def)
qed

section \<open>Appending to the logs\<close>




section \<open>Failed calls\<close>

text \<open>
  C4. If every call a run issues to the connect, generate or chat endpoint fails
  (the request raises, as on a timeout, or the status is not 200), then after the run
  \<^verbatim>\<open>repository\<close> and \<^verbatim>\<open>documentation\<close> are what they were before it; after a click on
  Connect or on Generate the whole session state is what it was.
\<close>

theorem failed_call_keeps_repository_and_documentation:
  assumes "\<forall>req. Sent req \<in> set (effects (script be ev s)) \<and> req \<noteq> HealthReq \<longrightarrow> call_failed (be req)"
  shows "repository (state (script be ev s)) = repository s
     \<and> documentation (state (script be ev s)) = documentation s
     \<and> ((\<exists>url. ev = ConnectClick url) \<or> ev = GenerateClick \<longrightarrow> state (script be ev s) = s)"
proof -
  from assms have "calls_failed be (effects (script be ev s))" by (simp add: calls_failed_def)
  then have "calls_failed be (effects (sidebar be ev s))"
    by (simp add: script_def then_run_simps calls_failed_append split: if_splits)
  then have sb: "state (sidebar be ev s) = s" by (rule sidebar_failed)
  have fields: "repository (state (script be ev s)) = repository s
     \<and> documentation (state (script be ev s)) = documentation s"
    using sb main_area_fields [of be ev s] by (simp add: script_def then_run_simps)
  have whole: "state (script be ev s) = s" if "(\<exists>url. ev = ConnectClick url) \<or> ev = GenerateClick"
    using that sb main_area_state_other [of ev be s]
    by (auto simp: script_def then_run_simps)
  from fields whole show ?thesis by blast
qed

theorem failed_call_keeps_repository_and_documentation_witness:
  "Sent (ChatReq ''hello'' demo_repository (JObj demo_doc_json) [ChatMessage User (JStr ''hello'')])
     \<in> set (effects (script failing_backend (ChatInput ''hello'') demo_session))
   \<and> repository (state (script failing_backend (ChatInput ''hello'') demo_session)) = demo_repository
   \<and> documentation (state (script failing_backend (ChatInput ''hello'') demo_session))
       = demo_documentation
   \<and> Sent (ConnectReq ''https://github.com/octo/other'')
       \<in> set (effects (script failing_backend (ConnectClick ''https://github.com/octo/other'')
                 demo_session))
   \<and> state (script failing_backend (ConnectClick ''https://github.com/octo/other'') demo_session)
       = demo_session
   \<and> state (script failing_backend GenerateClick connected_session) = connected_session"
proof -
  have f: "\<forall>req. Sent req \<in> set (effects (script failing_backend ev s)) \<and> req \<noteq> HealthReq
      \<longrightarrow> call_failed (failing_backend req)" for ev s
    by (simp add: failing_backend_fails)
  have sent1: "Sent (ChatReq ''hello'' demo_repository (JObj demo_doc_json)
        [ChatMessage User (JStr ''hello'')])
     \<in> set (effects (script failing_backend (ChatInput ''hello'') demo_session))"
    by (simp add: run_defs demo_defs failing_backend_def)
  have sent2: "Sent (ConnectReq ''https://github.com/octo/other'')
       \<in> set (effects (script failing_backend (ConnectClick ''https://github.com/octo/other'')
                 demo_session))"
    by (simp add: run_defs demo_defs failing_backend_def)
  have rd: "repository demo_session = demo_repository"
    "documentation demo_session = demo_documentation"
    by (simp_all add: demo_session_def)
  show ?thesis
    using failed_call_keeps_repository_and_documentation [OF f, of "ChatInput ''hello''" demo_session]
      failed_call_keeps_repository_and_documentation [OF f, of "ConnectClick ''https://github.com/octo/other''" demo_session]
      failed_call_keeps_repository_and_documentation [OF f, of GenerateClick connected_session] sent1 sent2 rd
    by simp
qed

section \<open>Clearing the chat\<close>

text \<open>
  C7. Clearing the chat empties \<^verbatim>\<open>messages\<close> and \<^verbatim>\<open>conversation_history\<close> and leaves
  \<^verbatim>\<open>repository\<close> and \<^verbatim>\<open>documentation\<close> as they are; clearing twice gives the state that
  clearing once gives. The same holds for runs of the script: a run with a click on
  Clear Chat leaves the session as it was or cleared, and a second such run changes
  nothing more.
\<close>

theorem clear_chat_idempotent:
  "messages (clear_chat s) = [] \<and> conversation_history (clear_chat s) = []
   \<and> repository (clear_chat s) = repository s \<and> documentation (clear_chat s) = documentation s
   \<and> clear_chat (clear_chat s) = clear_chat s
   \<and> (state (script be ClearClick s) = s \<or> state (script be ClearClick s) = clear_chat s)
   \<and> state (script be ClearClick (state (script be ClearClick s))) = state (script be ClearClick s)"
proof -
  have idem: "state (script be ClearClick (state (script be ClearClick s))) = state (script be ClearClick s)"
    using script_clear [of be s] script_clear [of be "clear_chat s"]
    by (auto simp: clear_chat_twice)
  show ?thesis using idem script_clear [of be s] by (simp add: clear_chat_def)
qed

theorem clear_chat_idempotent_witness:
  "messages chatted_session \<noteq> []
   \<and> state (script demo_backend ClearClick chatted_session) = clear_chat chatted_session
   \<and> state (script demo_backend ClearClick (clear_chat chatted_session)) = clear_chat chatted_session
   \<and> messages (clear_chat chatted_session) = []
   \<and> conversation_history (clear_chat chatted_session) = []
   \<and> repository (clear_chat chatted_session) = demo_repository
   \<and> documentation (clear_chat chatted_session) = demo_documentation"
proof -
  have "clear_chat chatted_session = demo_session"
    by (simp add: clear_chat_def chatted_session_def demo_session_def)
  then have a: "state (script demo_backend ClearClick chatted_session) = clear_chat chatted_session"
    by (simp add: demo_clear)
  have b: "messages chatted_session \<noteq> []" "repository chatted_session = demo_repository"
    "documentation chatted_session = demo_documentation"
    by (simp_all add: chatted_session_def)
  show ?thesis using clear_chat_idempotent [of chatted_session demo_backend] a b by simp
qed

section \<open>The two logs are equal\<close>

text \<open>
  C9. Both logs start empty, and in every session state a user can bring about,
  \<^verbatim>\<open>messages\<close> and \<^verbatim>\<open>conversation_history\<close> are the same list.
\<close>

theorem logs_always_equal:
  "messages (init_session_state None) = [] \<and> conversation_history (init_session_state None) = []
   \<and> (reachable s \<longrightarrow> messages s = conversation_history s)"
proof -
  have "messages s = conversation_history s" if "reachable s"
    using that
  proof (induction rule: reachable.induct)
    case start
    show ?case by (simp add: init_session_state_def initial_session_def)
  next
    case (step s be ev)
    then show ?case by (simp add: run_script_def init_session_state_def script_logs)
  qed
  then show ?thesis by (simp add: init_session_state_def initial_session_def)
qed

theorem logs_always_equal_witness:
  "reachable chatted_session
   \<and> messages chatted_session = conversation_history chatted_session
   \<and> messages chatted_session =
       [ChatMessage User (JStr ''hello''), ChatMessage Assistant (JStr ''It is a demo.'')]"
proof -
  from reachable.step [OF reachable_demo_session, of demo_backend "ChatInput ''hello''"]
  have r: "reachable chatted_session"
    by (simp add: run_script_def init_session_state_def demo_chat)
  have m: "messages chatted_session =
       [ChatMessage User (JStr ''hello''), ChatMessage Assistant (JStr ''It is a demo.'')]"
    by (simp add: chatted_session_def)
  show ?thesis using logs_always_equal [of chatted_session] r m by simp
qed

section \<open>An empty reply\<close>

text \<open>
  C10. When the chat call answers 200 with the empty string as its reply, the chat
  input handler appends the user message only (each log grows by one), shows its
  error notice, and leaves the session in the very state a failed call leaves it in;
  so does the whole run of the script that handles the chat input.
\<close>

theorem empty_reply_treated_as_failure:
  assumes dj: "py_index (documentation s) ''json'' = Inr dj"
    and u: "u = ChatMessage User (JStr prompt)"
    and req: "req = ChatReq prompt (repository s) dj (conversation_history s @ [u])"
    and ok: "be req = Response 200 (Some j)"
    and empty: "py_index j ''reply'' = Inr (JStr [])"
  shows "state (chat_input_handler be prompt s) = append_message u s
     \<and> messages (state (chat_input_handler be prompt s)) = messages s @ [u]
     \<and> conversation_history (state (chat_input_handler be prompt s)) = conversation_history s @ [u]
     \<and> length (messages (state (chat_input_handler be prompt s))) = length (messages s) + 1
     \<and> length (conversation_history (state (chat_input_handler be prompt s))) =
          length (conversation_history s) + 1
     \<and> chat_error_notice \<in> set (effects (chat_input_handler be prompt s))
     \<and> (\<forall>be'. call_failed (be' req) \<longrightarrow>
           state (chat_input_handler be' prompt s) = state (chat_input_handler be prompt s)
           \<and> chat_error_notice \<in> set (effects (chat_input_handler be' prompt s)))
     \<and> (\<forall>body. be HealthReq = Response 200 body \<and> wf_repository (repository s)
            \<and> wf_documentation (documentation s) \<and> prompt \<noteq> [] \<longrightarrow>
           state (script be (ChatInput prompt) s) = append_message u s
           \<and> chat_error_notice \<in> set (effects (script be (ChatInput prompt) s)))"
proof -
  have c: "chat_with_repository be prompt (repository s) (documentation s) (conversation_history s @ [u])
      = (JStr [], [Sent req])"
    using chat_with_repository_reply [OF dj] ok empty by (simp add: req)
  have here: "state (chat_input_handler be prompt s) = append_message u s"
    "chat_error_notice \<in> set (effects (chat_input_handler be prompt s))"
    using c by (simp_all add: chat_input_handler_def Let_def u append_message_def)
  have there: "state (chat_input_handler be' prompt s) = append_message u s
      \<and> chat_error_notice \<in> set (effects (chat_input_handler be' prompt s))"
    if "call_failed (be' req)" for be'
    using chat_with_repository_failed [OF dj, of be' prompt "repository s" "conversation_history s @ [u]"] that
    by (auto simp: chat_input_handler_def Let_def u req append_message_def split: prod.splits)
  have whole: "state (script be (ChatInput prompt) s) = append_message u s
      \<and> chat_error_notice \<in> set (effects (script be (ChatInput prompt) s))"
    if "be HealthReq = Response 200 body" "wf_repository (repository s)"
      "wf_documentation (documentation s)" "prompt \<noteq> []" for body
    using script_chat_input [of be body s prompt, OF that] here by simp
  from here there whole show ?thesis by (simp add: append_message_def)
qed

theorem empty_reply_treated_as_failure_witness:
  "py_index (documentation demo_session) ''json'' = Inr (JObj demo_doc_json)
   \<and> empty_reply_backend (ChatReq ''hello'' demo_repository (JObj demo_doc_json)
        [ChatMessage User (JStr ''hello'')]) = Response 200 (Some (JObj [(''reply'', JStr [])]))
   \<and> messages (state (chat_input_handler empty_reply_backend ''hello'' demo_session)) =
        [ChatMessage User (JStr ''hello'')]
   \<and> conversation_history (state (chat_input_handler empty_reply_backend ''hello'' demo_session)) =
        [ChatMessage User (JStr ''hello'')]
   \<and> chat_error_notice \<in> set (effects (chat_input_handler empty_reply_backend ''hello'' demo_session))
   \<and> state (chat_input_handler failing_backend ''hello'' demo_session) =
        state (chat_input_handler empty_reply_backend ''hello'' demo_session)
   \<and> empty_reply_backend HealthReq = Response 200 None
   \<and> wf_repository (repository demo_session) \<and> wf_documentation (documentation demo_session)
   \<and> messages (state (script empty_reply_backend (ChatInput ''hello'') demo_session)) =
        [ChatMessage User (JStr ''hello'')]
   \<and> chat_error_notice
        \<in> set (effects (script empty_reply_backend (ChatInput ''hello'') demo_session))"
proof -
  have h: "empty_reply_backend HealthReq = Response 200 None"
    by (simp add: empty_reply_backend_def demo_backend_def)
  have w: "wf_repository (repository demo_session)" "wf_documentation (documentation demo_session)"
    by (simp_all add: demo_session_def wf_demo_repository wf_demo_documentation)
  have p: "''hello'' \<noteq> []" by simp
  let ?u = "ChatMessage User (JStr ''hello'')"
  let ?req = "ChatReq ''hello'' (repository demo_session) (JObj demo_doc_json)
      (conversation_history demo_session @ [?u])"
  have f: "call_failed (failing_backend ?req)" by (simp add: failing_backend_fails)
  have i: "py_index (JObj [(''reply'', JStr [])]) ''reply'' = Inr (JStr [])" by simp
  show ?thesis
    using empty_reply_treated_as_failure [where be = empty_reply_backend and prompt = "''hello''" and s = demo_session
        and dj = "JObj demo_doc_json" and u = ?u and req = ?req
        and j = "JObj [(''reply'', JStr [])]",
        OF demo_session_json refl refl empty_reply_backend_chat i]
      f demo_session_json empty_reply_backend_chat h w p
    by (simp add: demo_session_fields append_message_def)
qed

end
